theory Spec2Isabelle
  imports Complex_Main
begin

section \<open>Data model\<close>

text \<open>
  A shallow embedding of \<^verbatim>\<open>surveyhelper/question.py\<close>. Python exceptions are values
  of the type \<open>error\<close>; a function that can raise returns \<open>error + 'a\<close> with
  \<open>Inl\<close> for the exception. Python integers are \<open>int\<close>. A Python float is
  idealised as an exact rational or the not-a-number value.
\<close>

datatype error =
    Exception string
  | KeyError
  | IndexError
  | AttributeError
  | TypeError
  | ValueError
  | ZeroDivisionError

datatype pyfloat = NaN | Fin rat

text \<open>\<^verbatim>\<open>a / b\<close> on Python integers: true division, raising on a zero divisor.\<close>

definition truediv :: "int \<Rightarrow> int \<Rightarrow> error + pyfloat" where
  "truediv a b = (if b = 0 then Inl ZeroDivisionError else Inr (Fin (of_int a / of_int b)))"

text \<open>\<^verbatim>\<open>p < level\<close> on floats: every comparison with not-a-number is false.\<close>

fun float_less :: "pyfloat \<Rightarrow> rat \<Rightarrow> bool" where
  "float_less NaN level = False"
| "float_less (Fin p) level = (p < level)"

text \<open>
  A cell of the dataset holds a numeric code or is missing (\<open>None\<close>, pandas' NaN).
  A data frame has named columns and one list of cells per respondent row.
\<close>

type_synonym cell = "int option"

record 'c dataframe =
  columns :: "string list"
  rows :: "'c list list"

type_synonym dataset = "cell dataframe"

fun index_of :: "'a \<Rightarrow> 'a list \<Rightarrow> nat option" where
  "index_of x [] = None"
| "index_of x (y # ys) =
     (if x = y then Some 0 else (case index_of x ys of None \<Rightarrow> None | Some i \<Rightarrow> Some (Suc i)))"

text \<open>\<^verbatim>\<open>df[name]\<close>: the column of that name, or KeyError.\<close>

definition get_column :: "'c dataframe \<Rightarrow> string \<Rightarrow> error + 'c list" where
  "get_column df name =
     (case index_of name (columns df) of
        None \<Rightarrow> Inl KeyError
      | Some i \<Rightarrow> Inr (map (\<lambda>r. r ! i) (rows df)))"

text \<open>\<^verbatim>\<open>itertools.compress(data, selectors)\<close>: stops with the shorter argument.\<close>

fun compress :: "'a list \<Rightarrow> bool list \<Rightarrow> 'a list" where
  "compress (d # ds) (s # ss) = (if s then d # compress ds ss else compress ds ss)"
| "compress ds ss = []"

text \<open>\<^verbatim>\<open>list(compress(xs, [not x for x in exclude_from_analysis]))\<close>\<close>

definition retained :: "'a list \<Rightarrow> bool list \<Rightarrow> 'a list" where
  "retained xs excl = compress xs (map Not excl)"

text \<open>\<^verbatim>\<open>dict(series.value_counts())\<close>: how often each non-missing value occurs.\<close>

fun value_counts :: "cell list \<Rightarrow> (int \<rightharpoonup> int)" where
  "value_counts [] = Map.empty"
| "value_counts (None # cs) = value_counts cs"
| "value_counts (Some v # cs) =
     (let m = value_counts cs
      in m(v \<mapsto> (case m v of None \<Rightarrow> 1 | Some k \<Rightarrow> k + 1)))"

section \<open>SelectOneQuestion\<close>

record select_one =
  text_one :: string
  variable_one :: string
  choices_one :: "string list"
  label_one :: string
  values_one :: "int list"
  exclude_from_analysis_one :: "bool list"
  matrix_one :: "string option"

text \<open>
  \<^verbatim>\<open>SelectOneQuestion.tally\<close>: the counts of the (retained) values in order, their
  sum as the respondents, and the length of the column minus that sum.
\<close>

definition tally_one :: "select_one \<Rightarrow> dataset \<Rightarrow> bool \<Rightarrow> error + (int list \<times> int \<times> int)" where
  "tally_one q df remove_exclusions =
     (case get_column df (variable_one q) of
        Inl e \<Rightarrow> Inl e
      | Inr unit_record \<Rightarrow>
          (let freqs = value_counts unit_record;
               vals = (if remove_exclusions
                       then retained (values_one q) (exclude_from_analysis_one q)
                       else values_one q);
               cts = map (\<lambda>k. case freqs k of Some c \<Rightarrow> c | None \<Rightarrow> 0) vals
           in Inr (cts, sum_list cts, int (length unit_record) - sum_list cts)))"

text \<open>\<^verbatim>\<open>SelectOneQuestion.mean\<close>\<close>

definition mean_one :: "select_one \<Rightarrow> dataset \<Rightarrow> bool \<Rightarrow> error + pyfloat" where
  "mean_one q df remove_exclusions =
     (let vals = (if remove_exclusions
                  then retained (values_one q) (exclude_from_analysis_one q)
                  else values_one q)
      in case tally_one q df remove_exclusions of
           Inl e \<Rightarrow> Inl e
         | Inr (freq, n, x) \<Rightarrow>
             (let num = sum_list (map (\<lambda>(ct, v). ct * v) (zip freq vals))
              in if n > 0 then truediv num n else Inr NaN))"

text \<open>\<^verbatim>\<open>"{}".format(v)\<close> on an integer: its decimal digits, with a sign when negative.\<close>

function str_nat :: "nat \<Rightarrow> string" where
  "str_nat n = (if n < 10 then [''0123456789'' ! n]
                else str_nat (n div 10) @ [''0123456789'' ! (n mod 10)])"
  by pat_completeness auto
termination
  by (relation "measure id") auto

definition str_int :: "int \<Rightarrow> string" where
  "str_int v = (if v < 0 then ''-'' @ str_nat (nat (- v)) else str_nat (nat v))"

text \<open>\<^verbatim>\<open>SelectOneQuestion.get_choices\<close>\<close>

definition get_choices_one :: "select_one \<Rightarrow> bool \<Rightarrow> bool \<Rightarrow> string list" where
  "get_choices_one q remove_exclusions show_values =
     (let choices = (if remove_exclusions
                     then retained (choices_one q) (exclude_from_analysis_one q)
                     else choices_one q);
          vals = (if remove_exclusions
                  then retained (values_one q) (exclude_from_analysis_one q)
                  else values_one q)
      in if show_values
         then (if remove_exclusions
               then map (\<lambda>(c, v). c @ '' ('' @ str_int v @ '')'') (zip choices vals)
               else map (\<lambda>(c, v, x). if x then c @ '' (X)''
                                      else c @ '' ('' @ str_int v @ '')'')
                        (zip choices (zip vals (exclude_from_analysis_one q))))
         else choices)"

section \<open>Grouped data and the statistical tests\<close>

text \<open>
  A pandas GroupBy object, as the code uses it: iterating it gives the pairs of a group
  key and the group's rows, \<^verbatim>\<open>len(groupby)\<close> is the number of groups, and
  \<^verbatim>\<open>groupby.groups\<close> is the dictionary from the group keys to their row labels,
  one entry per group (pandas defines \<^verbatim>\<open>GroupBy.__len__\<close> as
  \<^verbatim>\<open>len(self.groups)\<close>).
\<close>

type_synonym groupby = "(int \<times> dataset) list"

definition groups_keys :: "groupby \<Rightarrow> int list" where
  "groups_keys g = map fst g"

text \<open>
  The tests of \<^verbatim>\<open>scipy.stats\<close> are parameters of the model. Each returns the pair of
  its statistic and its p-value; \<open>ttest_ind\<close> takes the \<^verbatim>\<open>equal_var\<close> flag as its
  third argument.
\<close>

record scipy_stats =
  ttest_ind :: "int list \<Rightarrow> int list \<Rightarrow> bool \<Rightarrow> pyfloat \<times> pyfloat"
  f_oneway :: "int list list \<Rightarrow> pyfloat \<times> pyfloat"
  chisquare :: "int list \<Rightarrow> pyfloat list \<Rightarrow> pyfloat \<times> pyfloat"

text \<open>\<^verbatim>\<open>series.dropna()\<close>\<close>

definition dropna :: "cell list \<Rightarrow> int list" where
  "dropna col = List.map_filter id col"

text \<open>\<^verbatim>\<open>[d[self.variable].dropna() for groupname, d in groupby]\<close>\<close>

fun group_data :: "string \<Rightarrow> groupby \<Rightarrow> error + int list list" where
  "group_data var [] = Inr []"
| "group_data var ((groupname, d) # rest) =
     (case get_column d var of
        Inl e \<Rightarrow> Inl e
      | Inr col \<Rightarrow>
          (case group_data var rest of
             Inl e \<Rightarrow> Inl e
           | Inr ds \<Rightarrow> Inr (dropna col # ds)))"

text \<open>\<^verbatim>\<open>SelectOneQuestion.compare_groups\<close>\<close>

definition compare_groups_one :: "scipy_stats \<Rightarrow> select_one \<Rightarrow> groupby \<Rightarrow> rat \<Rightarrow> error + bool" where
  "compare_groups_one st q groupby pval =
     (case group_data (variable_one q) groupby of
        Inl e \<Rightarrow> Inl e
      | Inr data \<Rightarrow>
          if length groupby = 2
          then (let (ts, ps) = ttest_ind st (data ! 0) (data ! 1) False
                in Inr (float_less ps pval))
          else if length (groups_keys groupby) = 2
          then (let (f, p) = f_oneway st data
                in Inr (float_less p (5 / 100)))
          else Inr False)"

section \<open>SelectMultipleQuestion\<close>

record select_multiple =
  text_multi :: string
  choices_multi :: "string list"
  label_multi :: string
  variables_multi :: "string list"
  exclude_from_analysis_multi :: "bool list"
  matrix_multi :: "string option"

text \<open>\<^verbatim>\<open>SelectMultipleQuestion.get_choices\<close>\<close>

definition get_choices_multi :: "select_multiple \<Rightarrow> bool \<Rightarrow> string list" where
  "get_choices_multi q remove_exclusions =
     (if remove_exclusions
      then retained (choices_multi q) (exclude_from_analysis_multi q)
      else choices_multi q)"

text \<open>\<^verbatim>\<open>df[vars]\<close> for a list of names: the rows cut down to these columns, or KeyError.\<close>

definition select_columns :: "'c dataframe \<Rightarrow> string list \<Rightarrow> error + 'c list list" where
  "select_columns df vars =
     (case those (map (\<lambda>v. index_of v (columns df)) vars) of
        None \<Rightarrow> Inl KeyError
      | Some idxs \<Rightarrow> Inr (map (\<lambda>r. map (\<lambda>i. r ! i) idxs) (rows df)))"

text \<open>
  The inner loop of the tally: \<^verbatim>\<open>cts[ct] += 1\<close> for every cell of the row that is
  not missing, \<open>ct\<close> running over the positions.
\<close>

fun count_present :: "cell list \<Rightarrow> nat \<Rightarrow> int list \<Rightarrow> int list" where
  "count_present [] ct cts = cts"
| "count_present (v # vs) ct cts =
     count_present vs (ct + 1) (if v \<noteq> None then cts[ct := cts ! ct + 1] else cts)"

text \<open>The loop over \<^verbatim>\<open>unit_record.iterrows()\<close>.\<close>

fun tally_rows :: "cell list list \<Rightarrow> int list \<times> int \<times> int \<Rightarrow> int list \<times> int \<times> int" where
  "tally_rows [] state = state"
| "tally_rows (row # rest) (cts, respondents, nonrespondents) =
     (if dropna row = []
      then tally_rows rest (cts, respondents, nonrespondents + 1)
      else tally_rows rest (count_present row 0 cts, respondents + 1, nonrespondents))"

text \<open>\<^verbatim>\<open>SelectMultipleQuestion.tally\<close>\<close>

definition tally_multi :: "select_multiple \<Rightarrow> dataset \<Rightarrow> bool \<Rightarrow> error + (int list \<times> int \<times> int)" where
  "tally_multi q df remove_exclusions =
     (let vars = (if remove_exclusions
                  then retained (variables_multi q) (exclude_from_analysis_multi q)
                  else variables_multi q)
      in case select_columns df vars of
           Inl e \<Rightarrow> Inl e
         | Inr unit_record \<Rightarrow> Inr (tally_rows unit_record (replicate (length vars) 0, 0, 0)))"

text \<open>\<^verbatim>\<open>zip(*lists)\<close>: the lists read position by position, as far as the shortest goes.\<close>

definition zip_star :: "'a list list \<Rightarrow> 'a list list" where
  "zip_star xss =
     (case xss of
        [] \<Rightarrow> []
      | xs # rest \<Rightarrow>
          map (\<lambda>i. map (\<lambda>ys. ys ! i) xss) [0..<fold min (map length rest) (length xs)])"

text \<open>A list comprehension whose elements can raise: the first exception ends it.\<close>

fun collect :: "(error + 'a) list \<Rightarrow> error + 'a list" where
  "collect [] = Inr []"
| "collect (Inl e # rest) = Inl e"
| "collect (Inr x # rest) = (case collect rest of Inl e \<Rightarrow> Inl e | Inr xs \<Rightarrow> Inr (x # xs))"

text \<open>\<^verbatim>\<open>p * ct\<close> for a float and an integer.\<close>

fun float_times :: "pyfloat \<Rightarrow> int \<Rightarrow> pyfloat" where
  "float_times NaN ct = NaN"
| "float_times (Fin p) ct = Fin (p * of_int ct)"

text \<open>
  The first loop of \<^verbatim>\<open>SelectMultipleQuestion.compare_groups\<close>: the counts and the
  respondents of every group.
\<close>

fun group_tallies :: "select_multiple \<Rightarrow> groupby \<Rightarrow> bool \<Rightarrow> error + (int list \<times> int) list" where
  "group_tallies q [] remove_exclusions = Inr []"
| "group_tallies q ((k, df) # rest) remove_exclusions =
     (case tally_multi q df remove_exclusions of
        Inl e \<Rightarrow> Inl e
      | Inr (freqs, tot_resp, tot_nonresp) \<Rightarrow>
          (case group_tallies q rest remove_exclusions of
             Inl e \<Rightarrow> Inl e
           | Inr ts \<Rightarrow> Inr ((freqs, tot_resp) # ts)))"

text \<open>\<^verbatim>\<open>SelectMultipleQuestion.compare_groups\<close> (the printing of the flags left out).\<close>

definition compare_groups_multi ::
  "scipy_stats \<Rightarrow> select_multiple \<Rightarrow> groupby \<Rightarrow> bool \<Rightarrow> rat \<Rightarrow> error + bool list" where
  "compare_groups_multi st q groupby remove_exclusions pval =
     (case group_tallies q groupby remove_exclusions of
        Inl e \<Rightarrow> Inl e
      | Inr ts \<Rightarrow>
          (let obs_by_cut = map fst ts;
               ct_by_cut = map snd ts;
               choice_totals = map sum_list (zip_star obs_by_cut)
           in case collect (map (\<lambda>t. truediv t (sum_list ct_by_cut)) choice_totals) of
                Inl e \<Rightarrow> Inl e
              | Inr exp_prop_per_choice \<Rightarrow>
                  Inr (map (\<lambda>(f_obs, choice_tot, p_choice).
                              let f_exp = map (float_times p_choice) ct_by_cut;
                                  (chisq, p) = chisquare st f_obs f_exp
                              in float_less p pval)
                           (zip (zip_star obs_by_cut) (zip choice_totals exp_prop_per_choice)))))"

section \<open>MatrixQuestion\<close>

text \<open>
  The children of a matrix are questions of either class. The back-reference
  \<^verbatim>\<open>q.matrix\<close> of a child is modelled as the label of the owning matrix.
\<close>

datatype question = SelectOne select_one | SelectMultiple select_multiple

record matrix_question =
  text_matrix :: string
  questions :: "question list"
  label_matrix :: string

text \<open>\<^verbatim>\<open>type(x) == type(y)\<close>\<close>

fun same_type :: "question \<Rightarrow> question \<Rightarrow> bool" where
  "same_type (SelectOne x) (SelectOne y) = True"
| "same_type (SelectMultiple x) (SelectMultiple y) = True"
| "same_type x y = False"

text \<open>
  \<^verbatim>\<open>x.same_choices(other)\<close>, the method of the class of \<open>x\<close>. The single-answer
  method reads \<^verbatim>\<open>other.values\<close> once the choices agree, which a multi-answer
  question does not have.
\<close>

fun same_choices :: "question \<Rightarrow> question \<Rightarrow> error + bool" where
  "same_choices (SelectOne s) (SelectOne other) =
     Inr (choices_one s = choices_one other \<and> values_one s = values_one other \<and>
          exclude_from_analysis_one s = exclude_from_analysis_one other)"
| "same_choices (SelectOne s) (SelectMultiple other) =
     (if choices_one s = choices_multi other then Inl AttributeError else Inr False)"
| "same_choices (SelectMultiple s) (SelectOne other) =
     Inr (choices_multi s = choices_one other \<and>
          exclude_from_analysis_multi s = exclude_from_analysis_one other)"
| "same_choices (SelectMultiple s) (SelectMultiple other) =
     Inr (choices_multi s = choices_multi other \<and>
          exclude_from_analysis_multi s = exclude_from_analysis_multi other)"

text \<open>\<^verbatim>\<open>MatrixQuestion.assert_questions_same_type\<close>\<close>

definition assert_questions_same_type :: "question list \<Rightarrow> error + bool" where
  "assert_questions_same_type qs =
     (case qs of
        [] \<Rightarrow> Inr True
      | q0 # rest \<Rightarrow>
          if list_all (\<lambda>x. same_type x q0) qs then Inr True
          else Inl (Exception ''Questions in a matrix must all have the same type''))"

text \<open>\<^verbatim>\<open>all(x.same_choices(q0) for x in qs)\<close>: stops at the first false or exception.\<close>

fun all_same_choices :: "question \<Rightarrow> question list \<Rightarrow> error + bool" where
  "all_same_choices q0 [] = Inr True"
| "all_same_choices q0 (x # xs) =
     (case same_choices x q0 of
        Inl e \<Rightarrow> Inl e
      | Inr same \<Rightarrow> if same then all_same_choices q0 xs else Inr False)"

text \<open>\<^verbatim>\<open>MatrixQuestion.assert_choices_same\<close>\<close>

definition assert_choices_same :: "question list \<Rightarrow> error + bool" where
  "assert_choices_same qs =
     (case qs of
        [] \<Rightarrow> Inr True
      | q0 # rest \<Rightarrow>
          (case all_same_choices q0 qs of
             Inl e \<Rightarrow> Inl e
           | Inr same \<Rightarrow>
               if same then Inr True
               else Inl (Exception ''Questions in a matrix must all have the same choices'')))"

text \<open>\<^verbatim>\<open>MatrixQuestion.assign_children_to_matrix\<close>\<close>

fun set_matrix :: "string \<Rightarrow> question \<Rightarrow> question" where
  "set_matrix m (SelectOne q) = SelectOne (q\<lparr>matrix_one := Some m\<rparr>)"
| "set_matrix m (SelectMultiple q) = SelectMultiple (q\<lparr>matrix_multi := Some m\<rparr>)"

definition assign_children_to_matrix :: "string \<Rightarrow> question list \<Rightarrow> question list" where
  "assign_children_to_matrix m qs = map (set_matrix m) qs"

text \<open>\<^verbatim>\<open>MatrixQuestion.__init__\<close>\<close>

definition MatrixQuestion_init :: "string \<Rightarrow> string \<Rightarrow> question list \<Rightarrow> error + matrix_question" where
  "MatrixQuestion_init text label qs =
     (case assert_questions_same_type qs of
        Inl e \<Rightarrow> Inl e
      | Inr ok1 \<Rightarrow>
          (case assert_choices_same qs of
             Inl e \<Rightarrow> Inl e
           | Inr ok2 \<Rightarrow>
               Inr \<lparr>text_matrix = text,
                    questions = assign_children_to_matrix label qs,
                    label_matrix = label\<rparr>))"

text \<open>
  \<^verbatim>\<open>q.get_choices(remove_exclusions, show_values)\<close> and
  \<^verbatim>\<open>q.get_choices(remove_exclusions)\<close> on a question of either class: the
  multi-answer method takes no second argument.
\<close>

fun question_get_choices2 :: "question \<Rightarrow> bool \<Rightarrow> bool \<Rightarrow> error + string list" where
  "question_get_choices2 (SelectOne q) remove_exclusions show_values =
     Inr (get_choices_one q remove_exclusions show_values)"
| "question_get_choices2 (SelectMultiple q) remove_exclusions show_values = Inl TypeError"

fun question_get_choices1 :: "question \<Rightarrow> bool \<Rightarrow> error + string list" where
  "question_get_choices1 (SelectOne q) remove_exclusions =
     Inr (get_choices_one q remove_exclusions False)"
| "question_get_choices1 (SelectMultiple q) remove_exclusions =
     Inr (get_choices_multi q remove_exclusions)"

text \<open>\<^verbatim>\<open>SelectOneMatrixQuestion.get_choices\<close>\<close>

definition get_choices_one_matrix :: "matrix_question \<Rightarrow> bool \<Rightarrow> bool \<Rightarrow> error + string list" where
  "get_choices_one_matrix m remove_exclusions show_values =
     (case assert_choices_same (questions m) of
        Inl e \<Rightarrow> Inl e
      | Inr ok \<Rightarrow>
          (case questions m of
             [] \<Rightarrow> Inl IndexError
           | q0 # rest \<Rightarrow> question_get_choices2 q0 remove_exclusions show_values))"

text \<open>\<^verbatim>\<open>SelectMultipleMatrixQuestion.get_choices\<close>\<close>

definition get_choices_multi_matrix :: "matrix_question \<Rightarrow> bool \<Rightarrow> error + string list" where
  "get_choices_multi_matrix m remove_exclusions =
     (case assert_choices_same (questions m) of
        Inl e \<Rightarrow> Inl e
      | Inr ok \<Rightarrow>
          (case questions m of
             [] \<Rightarrow> Inl IndexError
           | q0 # rest \<Rightarrow> question_get_choices1 q0 remove_exclusions))"

text \<open>\<^verbatim>\<open>MatrixQuestion.get_children_text\<close>\<close>

fun question_text :: "question \<Rightarrow> string" where
  "question_text (SelectOne q) = text_one q"
| "question_text (SelectMultiple q) = text_multi q"

definition get_children_text :: "matrix_question \<Rightarrow> string list" where
  "get_children_text m = map question_text (questions m)"

text \<open>
  The choice set of a question, as the specification compares it: the labels, the values
  (a multi-answer question has none) and the exclusion flags, each in order.
\<close>

fun choice_set :: "question \<Rightarrow> string list \<times> int list option \<times> bool list" where
  "choice_set (SelectOne q) = (choices_one q, Some (values_one q), exclude_from_analysis_one q)"
| "choice_set (SelectMultiple q) = (choices_multi q, None, exclude_from_analysis_multi q)"

section \<open>Result tables\<close>

text \<open>
  A cell of a result table: a string, an integer, the string that \<^verbatim>\<open>format(x, spec)\<close>
  gives for a number (kept as the number and the format specification), or pandas' filler
  for a missing cell. A result table is its number of rows and its labelled columns in
  order.
\<close>

datatype tcell = Text string | Count int | Formatted pyfloat string | Missing

record table =
  height :: nat
  cols :: "(string \<times> tcell list) list"

text \<open>
  \<^verbatim>\<open>pd.DataFrame(data)\<close> for a list of lists: shorter lists are filled up to the longest.
\<close>

definition padded :: "tcell list list \<Rightarrow> tcell list list" where
  "padded data =
     (let n = fold max (map length data) 0
      in map (\<lambda>r. r @ replicate (n - length r) Missing) data)"

text \<open>
  \<^verbatim>\<open>tbl = pd.DataFrame(data).T; tbl.columns = names\<close>: the lists are the columns. The
  assignment of the labels fails when their number is not the number of columns.
\<close>

definition frame_of_columns :: "tcell list list \<Rightarrow> string list \<Rightarrow> error + table" where
  "frame_of_columns data names =
     (if length names = length data
      then Inr \<lparr>height = fold max (map length data) 0, cols = zip names (padded data)\<rparr>
      else Inl ValueError)"

text \<open>\<^verbatim>\<open>tbl = pd.DataFrame(data); tbl.columns = names\<close>: the lists are the rows.\<close>

definition frame_of_rows :: "tcell list list \<Rightarrow> string list \<Rightarrow> error + table" where
  "frame_of_rows data names =
     (let width = fold max (map length data) 0
      in if length names = width
         then Inr \<lparr>height = length data,
                  cols = zip names (map (\<lambda>i. map (\<lambda>r. r ! i) (padded data)) [0..<width])\<rparr>
         else Inl ValueError)"

text \<open>\<^verbatim>\<open>tbl.loc[len(tbl)] = cells\<close>: one more row.\<close>

definition append_row :: "table \<Rightarrow> tcell list \<Rightarrow> table" where
  "append_row tbl cells =
     \<lparr>height = height tbl + 1,
      cols = map (\<lambda>((name, col), c). (name, col @ [c])) (zip (cols tbl) cells)\<rparr>"

text \<open>\<^verbatim>\<open>tbl.iloc[:,0].tolist()\<close>\<close>

definition first_column :: "table \<Rightarrow> error + tcell list" where
  "first_column tbl = (case cols tbl of [] \<Rightarrow> Inl IndexError | (name, col) # rest \<Rightarrow> Inr col)"

text \<open>
  \<^verbatim>\<open>tbl[name] = cells\<close>: the column of that label is replaced, or a new last column is
  added; the cells must be as many as the rows.
\<close>

definition set_column :: "table \<Rightarrow> string \<Rightarrow> tcell list \<Rightarrow> error + table" where
  "set_column tbl name cells =
     (if length cells \<noteq> height tbl then Inl ValueError
      else if name \<in> set (map fst (cols tbl))
      then Inr (tbl\<lparr>cols := map (\<lambda>(n, col). if n = name then (n, cells) else (n, col)) (cols tbl)\<rparr>)
      else Inr (tbl\<lparr>cols := cols tbl @ [(name, cells)]\<rparr>))"

text \<open>\<^verbatim>\<open>tbl[labels]\<close>: for each label in turn, the columns that carry it.\<close>

definition select_labels :: "table \<Rightarrow> string list \<Rightarrow> table" where
  "select_labels tbl labels =
     tbl\<lparr>cols := concat (map (\<lambda>l. filter (\<lambda>(n, col). n = l) (cols tbl)) labels)\<rparr>"

text \<open>\<^verbatim>\<open>cols[-1:] + cols[:-1]\<close>\<close>

definition last_first :: "'a list \<Rightarrow> 'a list" where
  "last_first xs = (if xs = [] then [] else last xs # butlast xs)"

text \<open>The column of a label in a result table, the first when several carry it.\<close>

definition table_column :: "table \<Rightarrow> string \<Rightarrow> tcell list option" where
  "table_column tbl name = map_of (cols tbl) name"

section \<open>Frequency tables\<close>

text \<open>
  \<^verbatim>\<open>SelectOneQuestion.frequency_table\<close>. Each shown column comes with its label, its
  cells, its cell of the totals row and its cell of the mean row. The mean is computed
  once the tally has succeeded, so it cannot raise.
\<close>

definition frequency_table_one ::
  "select_one \<Rightarrow> dataset \<Rightarrow> bool \<Rightarrow> bool \<Rightarrow> bool \<Rightarrow> string \<Rightarrow> bool \<Rightarrow> bool \<Rightarrow> bool \<Rightarrow> string
     \<Rightarrow> error + table" where
  "frequency_table_one q df show_question ct pct pct_format remove_exclusions
       show_totals show_mean mean_format =
     (case tally_one q df remove_exclusions of
        Inl e \<Rightarrow> Inl e
      | Inr (cts, resp, nonresp) \<Rightarrow>
          (case (if ct \<or> pct then mean_one q df remove_exclusions else Inr NaN) of
             Inl e \<Rightarrow> Inl e
           | Inr m \<Rightarrow>
               (let parts =
                      (if show_question
                       then [(''Answer'',
                              map Text (get_choices_one q remove_exclusions show_mean),
                              Text ''Total'', Text ''Mean'')]
                       else []) @
                      (if ct
                       then [(''Count'', map Count cts, Count resp, Formatted m mean_format)]
                       else []) @
                      (if pct
                       then [(''%'',
                              map (\<lambda>x. if resp > 0
                                       then Formatted (Fin (of_int x / of_int resp)) pct_format
                                       else Text ''-'') cts,
                              Formatted (Fin 1) pct_format,
                              if \<not> ct then Formatted m mean_format else Text '''')]
                       else []);
                    data = map (\<lambda>(name, cells, tot, mn). cells) parts;
                    names = map (\<lambda>(name, cells, tot, mn). name) parts;
                    tots = map (\<lambda>(name, cells, tot, mn). tot) parts;
                    mean = map (\<lambda>(name, cells, tot, mn). mn) parts
                in case frame_of_columns data names of
                     Inl e \<Rightarrow> Inl e
                   | Inr tbl \<Rightarrow>
                       (let tbl1 = (if show_totals then append_row tbl tots else tbl);
                            tbl2 = (if show_mean then append_row tbl1 mean else tbl1)
                        in Inr tbl2))))"

text \<open>
  \<^verbatim>\<open>SelectMultipleQuestion.frequency_table\<close>. The percentages divide by the
  respondents and by the sum of the counts without a guard.
\<close>

definition frequency_table_multi ::
  "select_multiple \<Rightarrow> dataset \<Rightarrow> bool \<Rightarrow> bool \<Rightarrow> bool \<Rightarrow> bool \<Rightarrow> string \<Rightarrow> bool \<Rightarrow> bool
     \<Rightarrow> error + table" where
  "frequency_table_multi q df show_question ct pct_respondents pct_responses pct_format
       remove_exclusions show_totals =
     (case tally_multi q df remove_exclusions of
        Inl e \<Rightarrow> Inl e
      | Inr (cts, resp, nonresp) \<Rightarrow>
          (case (if pct_respondents then collect (map (\<lambda>x. truediv x resp) cts) else Inr []) of
             Inl e \<Rightarrow> Inl e
           | Inr of_respondents \<Rightarrow>
               (case (if pct_responses then collect (map (\<lambda>x. truediv x (sum_list cts)) cts)
                      else Inr []) of
                  Inl e \<Rightarrow> Inl e
                | Inr of_responses \<Rightarrow>
                    (let parts =
                           (if show_question
                            then [(''Answer'', map Text (get_choices_multi q remove_exclusions),
                                   Text ''Total respondents'')]
                            else []) @
                           (if ct then [(''Count'', map Count cts, Count resp)] else []) @
                           (if pct_respondents
                            then [(''% of respondents'',
                                   map (\<lambda>p. Formatted p pct_format) of_respondents, Text '''')]
                            else []) @
                           (if pct_responses
                            then [(''% of responses'',
                                   map (\<lambda>p. Formatted p pct_format) of_responses, Text '''')]
                            else []);
                         data = map (\<lambda>(name, cells, tot). cells) parts;
                         names = map (\<lambda>(name, cells, tot). name) parts;
                         tots = map (\<lambda>(name, cells, tot). tot) parts
                     in case frame_of_columns data names of
                          Inl e \<Rightarrow> Inl e
                        | Inr tbl \<Rightarrow> Inr (if show_totals then append_row tbl tots else tbl)))))"

text \<open>\<^verbatim>\<open>q.tally(df, remove_exclusions)\<close> on a question of either class.\<close>

fun question_tally :: "question \<Rightarrow> dataset \<Rightarrow> bool \<Rightarrow> error + (int list \<times> int \<times> int)" where
  "question_tally (SelectOne q) df remove_exclusions = tally_one q df remove_exclusions"
| "question_tally (SelectMultiple q) df remove_exclusions = tally_multi q df remove_exclusions"

text \<open>
  \<^verbatim>\<open>SelectQuestion.get_total_respondents\<close>: \<^verbatim>\<open>self.tally(df)\<close> leaves
  \<^verbatim>\<open>remove_exclusions\<close> at its default, which is true in both classes.
\<close>

definition get_total_respondents :: "question \<Rightarrow> dataset \<Rightarrow> error + int" where
  "get_total_respondents q df =
     (case question_tally q df True of
        Inl e \<Rightarrow> Inl e
      | Inr (freqs, resp, nonresp) \<Rightarrow> Inr resp)"

text \<open>
  The call \<^verbatim>\<open>q.frequency_table(df, False, True, False, False, pct_format,
  remove_exclusions, False)\<close> of the multi-answer matrix on a child. On a single-answer
  child the same positional arguments land one parameter later: the percent column is
  off (its format is then the unused \<^verbatim>\<open>False\<close>), \<^verbatim>\<open>remove_exclusions\<close> is the
  truth value of the format string, \<^verbatim>\<open>show_totals\<close> is the caller's
  \<^verbatim>\<open>remove_exclusions\<close>, and there is no mean row.
\<close>

fun child_count_table :: "question \<Rightarrow> dataset \<Rightarrow> string \<Rightarrow> bool \<Rightarrow> error + table" where
  "child_count_table (SelectMultiple q) df pct_format remove_exclusions =
     frequency_table_multi q df False True False False pct_format remove_exclusions False"
| "child_count_table (SelectOne q) df pct_format remove_exclusions =
     frequency_table_one q df False True False ''False'' (pct_format \<noteq> [])
       remove_exclusions False ''.1f''"

definition child_count_slice :: "question \<Rightarrow> dataset \<Rightarrow> string \<Rightarrow> bool \<Rightarrow> error + tcell list" where
  "child_count_slice q df pct_format remove_exclusions =
     (case child_count_table q df pct_format remove_exclusions of
        Inl e \<Rightarrow> Inl e
      | Inr tbl \<Rightarrow> first_column tbl)"

text \<open>
  \<^verbatim>\<open>SelectMultipleMatrixQuestion.frequency_table\<close>. The two percent modes iterate
  \<^verbatim>\<open>self.responses\<close>, an attribute that no matrix has.
\<close>

definition frequency_table_multi_matrix ::
  "matrix_question \<Rightarrow> dataset \<Rightarrow> string \<Rightarrow> string \<Rightarrow> bool \<Rightarrow> bool \<Rightarrow> error + table" where
  "frequency_table_multi_matrix m df show pct_format remove_exclusions show_totals =
     (case (if show = ''ct''
            then collect (map (\<lambda>q. child_count_slice q df pct_format remove_exclusions)
                              (questions m))
            else if show = ''pct_respondents'' then Inl AttributeError
            else if show = ''pct_responses'' then Inl AttributeError
            else Inl (Exception (''Invalid 'show' parameter: '' @ show))) of
        Inl e \<Rightarrow> Inl e
      | Inr data \<Rightarrow>
          (case get_choices_multi_matrix m remove_exclusions of
             Inl e \<Rightarrow> Inl e
           | Inr names \<Rightarrow>
               (case frame_of_rows data names of
                  Inl e \<Rightarrow> Inl e
                | Inr tbl \<Rightarrow>
                    (case set_column tbl ''Question'' (map Text (get_children_text m)) of
                       Inl e \<Rightarrow> Inl e
                     | Inr tbl1 \<Rightarrow>
                         (let tbl2 = select_labels tbl1 (last_first (map fst (cols tbl1)))
                          in if show_totals
                             then (case collect (map (\<lambda>q. get_total_respondents q df)
                                                     (questions m)) of
                                     Inl e \<Rightarrow> Inl e
                                   | Inr tots \<Rightarrow>
                                       set_column tbl2 ''Total Respondents'' (map Count tots))
                             else Inr tbl2)))))"

section \<open>Cross-tabulation of a single-answer question\<close>

text \<open>
  The table that \<^verbatim>\<open>cut_by\<close> returns: a two-level key for every row and for every
  column, and the rows of cells.
\<close>

record cut_table =
  row_index :: "(string \<times> string) list"
  column_index :: "(string \<times> tcell) list"
  body :: "tcell list list"

text \<open>
  \<^verbatim>\<open>t.set_index("Answer", inplace=True); series = t.ix[:,0]\<close>: the cells of the Answer
  column become the index of the first of the other columns.
\<close>

definition answer_series :: "table \<Rightarrow> error + (tcell list \<times> tcell list)" where
  "answer_series t =
     (case map_of (cols t) ''Answer'' of
        None \<Rightarrow> Inl KeyError
      | Some idx \<Rightarrow>
          (case filter (\<lambda>(n, col). n \<noteq> ''Answer'') (cols t) of
             [] \<Rightarrow> Inl IndexError
           | (n, vals) # rest \<Rightarrow> Inr (idx, vals)))"

text \<open>
  The loop of \<^verbatim>\<open>SelectOneQuestion.cut_by\<close> over the groups: per group the percent
  column of its frequency table, named by the label of the group key.
\<close>

fun cut_series ::
  "select_one \<Rightarrow> groupby \<Rightarrow> (int \<rightharpoonup> string) \<Rightarrow> string \<Rightarrow> bool \<Rightarrow> bool \<Rightarrow> string
     \<Rightarrow> error + (string \<times> tcell list \<times> tcell list) list" where
  "cut_series q [] group_label_mapping pct_format remove_exclusions show_mean mean_format = Inr []"
| "cut_series q ((k, gp) # rest) group_label_mapping pct_format remove_exclusions show_mean
       mean_format =
     (case frequency_table_one q gp True False True pct_format remove_exclusions False
             show_mean mean_format of
        Inl e \<Rightarrow> Inl e
      | Inr t \<Rightarrow>
          (case answer_series t of
             Inl e \<Rightarrow> Inl e
           | Inr (idx, vals) \<Rightarrow>
               (case group_label_mapping k of
                  None \<Rightarrow> Inl KeyError
                | Some name \<Rightarrow>
                    (case cut_series q rest group_label_mapping pct_format remove_exclusions
                            show_mean mean_format of
                       Inl e \<Rightarrow> Inl e
                     | Inr series \<Rightarrow> Inr ((name, idx, vals) # series)))))"

text \<open>
  \<^verbatim>\<open>cols[:-1] + [cols[-1] + "*"]\<close>: the significance marker on the last column label.
\<close>

definition star_last :: "tcell list \<Rightarrow> error + tcell list" where
  "star_last labels =
     (if labels = [] then Inl IndexError
      else (case last labels of
              Text s \<Rightarrow> Inr (butlast labels @ [Text (s @ ''*'')])
            | Count n \<Rightarrow> Inl TypeError
            | Formatted x spec \<Rightarrow> Inl TypeError
            | Missing \<Rightarrow> Inl TypeError))"

text \<open>\<^verbatim>\<open>pd.MultiIndex.from_arrays([upper, labels])\<close>: both levels must be equally long.\<close>

definition from_arrays :: "'a list \<Rightarrow> 'b list \<Rightarrow> error + ('a \<times> 'b) list" where
  "from_arrays upper labels =
     (if length upper = length labels then Inr (zip upper labels) else Inl ValueError)"

text \<open>
  \<^verbatim>\<open>SelectOneQuestion.cut_by\<close>. \<^verbatim>\<open>pd.DataFrame(freqs)\<close> has one row per series, and
  the columns are the index that the series share (the Answer column of a frequency table
  does not depend on the data). The group comparison runs at its default level.
\<close>

definition cut_by_one ::
  "scipy_stats \<Rightarrow> select_one \<Rightarrow> groupby \<Rightarrow> (int \<rightharpoonup> string) \<Rightarrow> string \<Rightarrow> string option \<Rightarrow> string
     \<Rightarrow> bool \<Rightarrow> bool \<Rightarrow> string \<Rightarrow> error + cut_table" where
  "cut_by_one st q groups group_label_mapping cut_var_label question_label pct_format
       remove_exclusions show_mean mean_format =
     (case cut_series q groups group_label_mapping pct_format remove_exclusions show_mean
             mean_format of
        Inl e \<Rightarrow> Inl e
      | Inr freqs \<Rightarrow>
          (let df_index = map (\<lambda>(name, idx, vals). name) freqs;
               df_columns = (case freqs of [] \<Rightarrow> [] | (name, idx, vals) # rest \<Rightarrow> idx);
               df_rows = map (\<lambda>(name, idx, vals). vals) freqs
           in case (if show_mean
                    then (case compare_groups_one st q groups (5 / 100) of
                            Inl e \<Rightarrow> Inl e
                          | Inr significant \<Rightarrow>
                              if significant then star_last df_columns else Inr df_columns)
                    else Inr df_columns) of
                Inl e \<Rightarrow> Inl e
              | Inr df_columns1 \<Rightarrow>
                  (let my_label = (case question_label of
                                     None \<Rightarrow> text_one q
                                   | Some l \<Rightarrow> if l = [] then text_one q else l);
                       top_index = replicate (length groups) cut_var_label
                   in case from_arrays top_index df_index of
                        Inl e \<Rightarrow> Inl e
                      | Inr rkeys \<Rightarrow>
                          (let col_top_index = replicate (length (choices_one q)) my_label @
                                               (if show_mean then [my_label] else [])
                           in case from_arrays col_top_index df_columns1 of
                                Inl e \<Rightarrow> Inl e
                              | Inr ckeys \<Rightarrow>
                                  Inr \<lparr>row_index = rkeys, column_index = ckeys,
                                       body = df_rows\<rparr>))))"

section \<open>Reference notions and example inputs\<close>

text \<open>How many rows of a column hold the value \<open>v\<close>.\<close>

definition count_of :: "cell list \<Rightarrow> int \<Rightarrow> int" where
  "count_of col v = int (count_list col (Some v))"

text \<open>How many rows of a column hold any value at all.\<close>

definition answered :: "cell list \<Rightarrow> int" where
  "answered col = int (length (filter (\<lambda>c. c \<noteq> None) col))"

text \<open>
  The single-answer example of the specification: choices Yes (1) and No (2), and the
  answers 1, 1, 2 and one missing.
\<close>

definition yes_no :: select_one where
  "yes_no = \<lparr>text_one = ''Do you agree?'', variable_one = ''Q1'', choices_one = [''Yes'', ''No''],
     label_one = ''Q1'', values_one = [1, 2], exclude_from_analysis_one = [False, False],
     matrix_one = None\<rparr>"

definition yes_no_data :: dataset where
  "yes_no_data = \<lparr>columns = [''Q1''], rows = [[Some 1], [Some 1], [Some 2], [None]]\<rparr>"

definition yes_no_dk :: select_one where
  "yes_no_dk = \<lparr>text_one = ''Do you agree?'', variable_one = ''Q1'',
     choices_one = [''Yes'', ''No'', ''Do not know''],
     label_one = ''Q1'', values_one = [1, 2, 3], exclude_from_analysis_one = [False, False, True],
     matrix_one = None\<rparr>"

definition dk_data :: dataset where
  "dk_data = \<lparr>columns = [''Q1''], rows = [[Some 1], [Some 3]]\<rparr>"

definition no_answer_data :: dataset where
  "no_answer_data = \<lparr>columns = [''Q1''], rows = [[None], [None]]\<rparr>"

text \<open>
  The multi-answer example of the specification: variables A and B, and the rows (1, NA),
  (NA, NA) and (1, 1).
\<close>

definition a_b :: select_multiple where
  "a_b = \<lparr>text_multi = ''Which apply?'', choices_multi = [''Option A'', ''Option B''],
     label_multi = ''Q2'', variables_multi = [''A'', ''B''],
     exclude_from_analysis_multi = [False, False], matrix_multi = None\<rparr>"

definition a_b_data :: dataset where
  "a_b_data = \<lparr>columns = [''A'', ''B''],
     rows = [[Some 1, None], [None, None], [Some 1, Some 1]]\<rparr>"

text \<open>
  A split of the single-answer example into three groups (keys 1, 2 and 3) in which two
  distinct answers occur, and its first two groups.
\<close>

definition three_groups :: groupby where
  "three_groups =
     [(1, \<lparr>columns = [''Q1'', ''G''], rows = [[Some 1, Some 1], [Some 1, Some 1]]\<rparr>),
      (2, \<lparr>columns = [''Q1'', ''G''], rows = [[Some 2, Some 2], [Some 2, Some 2]]\<rparr>),
      (3, \<lparr>columns = [''Q1'', ''G''], rows = [[Some 2, Some 3], [None, Some 3]]\<rparr>)]"

definition two_groups :: groupby where
  "two_groups = take 2 three_groups"

text \<open>
  Stand-ins for the tests, reporting the p-value 0.01 on every input, and two splits of the
  multi-answer example: into two groups, and one group whose only row answers nothing.
\<close>

definition always_significant :: scipy_stats where
  "always_significant =
     \<lparr>ttest_ind = (\<lambda>a b equal_var. (Fin 0, Fin (1 / 100))),
      f_oneway = (\<lambda>data. (Fin 0, Fin (1 / 100))),
      chisquare = (\<lambda>f_obs f_exp. (Fin 0, Fin (1 / 100)))\<rparr>"

definition a_b_groups :: groupby where
  "a_b_groups =
     [(1, \<lparr>columns = [''A'', ''B''], rows = [[Some 1, None], [None, None]]\<rparr>),
      (2, \<lparr>columns = [''A'', ''B''], rows = [[Some 1, Some 1]]\<rparr>)]"

definition silent_group :: groupby where
  "silent_group = [(1, \<lparr>columns = [''A'', ''B''], rows = [[None, None]]\<rparr>)]"

text \<open>A second question with the choice set of the single-answer example.\<close>

definition wide_yes_no :: select_one where
  "wide_yes_no = yes_no\<lparr>text_one := ''Would you return?'', variable_one := ''Q3''\<rparr>"

text \<open>
  A multi-answer question with an excluded third choice, three rows of answers (the second
  row ticks the excluded choice only), and a matrix of two such questions.
\<close>

definition a_b_other :: select_multiple where
  "a_b_other = \<lparr>text_multi = ''Which apply at home?'',
     choices_multi = [''Option A'', ''Option B'', ''Other''],
     label_multi = ''Q4'', variables_multi = [''A'', ''B'', ''C''],
     exclude_from_analysis_multi = [False, False, True], matrix_multi = None\<rparr>"

definition a_b_other_data :: dataset where
  "a_b_other_data = \<lparr>columns = [''A'', ''B'', ''C''],
     rows = [[Some 1, None, None], [None, None, Some 1], [None, None, None]]\<rparr>"

definition home_work :: matrix_question where
  "home_work = \<lparr>text_matrix = ''Which apply?'',
     questions = [SelectMultiple (a_b_other\<lparr>matrix_multi := Some ''M2''\<rparr>),
                  SelectMultiple (a_b_other\<lparr>text_multi := ''Which apply at work?'',
                                            matrix_multi := Some ''M2''\<rparr>)],
     label_matrix = ''M2''\<rparr>"

text \<open>The labels of the group keys of the example splits.\<close>

definition gender_labels :: "int \<rightharpoonup> string" where
  "gender_labels = [1 \<mapsto> ''Men'', 2 \<mapsto> ''Women'']"

text \<open>
  The length invariant of a single-answer question, and the labels that its frequency
  table puts in the Answer column when the question is shown and totals are not.
\<close>

definition well_formed_one :: "select_one \<Rightarrow> bool" where
  "well_formed_one q \<longleftrightarrow>
     length (choices_one q) = length (values_one q) \<and>
     length (values_one q) = length (exclude_from_analysis_one q)"

definition answer_labels :: "select_one \<Rightarrow> bool \<Rightarrow> bool \<Rightarrow> tcell list" where
  "answer_labels q remove_exclusions show_mean =
     map Text (get_choices_one q remove_exclusions show_mean) @
     (if show_mean then [Text ''Mean''] else [])"

section \<open>Properties of the single-answer tally\<close>

lemma index_of_None: "index_of x xs = None \<longleftrightarrow> x \<notin> set xs"
  by (induction xs) (auto split: option.splits)

lemma get_column_present:
  "name \<in> set (columns df) \<Longrightarrow> \<exists>col. get_column df name = Inr col \<and> length col = length (rows df)"
  by (cases "index_of name (columns df)") (auto simp: get_column_def index_of_None)

lemma get_column_length: "get_column df name = Inr col \<Longrightarrow> length col = length (rows df)"
  by (auto simp: get_column_def split: option.splits)

lemma value_counts_count:
  "value_counts cs v = (if Some v \<in> set cs then Some (int (count_list cs (Some v))) else None)"
proof (induction cs rule: value_counts.induct)
  case 1
  show ?case by simp
next
  case (2 cs)
  then show ?case by simp
next
  case (3 w cs)
  then show ?case by (auto simp: Let_def count_list_0_iff)
qed

lemma value_counts_lookup:
  "(case value_counts cs v of Some c \<Rightarrow> c | None \<Rightarrow> 0) = count_of cs v"
  by (simp add: value_counts_count count_of_def count_list_0_iff)

lemma tally_one_eq:
  assumes "get_column df (variable_one q) = Inr col"
  shows "tally_one q df re =
           (let vals = (if re then retained (values_one q) (exclude_from_analysis_one q)
                        else values_one q);
                cts = map (count_of col) vals
            in Inr (cts, sum_list cts, int (length (rows df)) - sum_list cts))"
  using assms get_column_length[OF assms]
  by (simp add: tally_one_def Let_def value_counts_lookup)

text \<open>
  C1. For a dataset that has the question's answer variable, the tally without exclusion
  filtering returns one count per choice value, in the order of the values (the count at
  position i is the number of rows holding value i); the respondents are the sum of the
  counts, and counts plus non-respondents add up to the number of rows.
\<close>

theorem tally_one_accounts_for_every_row:
  assumes "variable_one q \<in> set (columns df)"
  shows "\<exists>cts resp nonresp.
           tally_one q df False = Inr (cts, resp, nonresp) \<and>
           sum_list cts + nonresp = int (length (rows df)) \<and>
           resp = sum_list cts \<and>
           length cts = length (values_one q) \<and>
           (\<forall>i < length (values_one q).
              \<exists>col. get_column df (variable_one q) = Inr col \<and>
                    cts ! i = int (count_list col (Some (values_one q ! i))))"
proof -
  from get_column_present[OF assms] obtain col where
    col: "get_column df (variable_one q) = Inr col" by blast
  show ?thesis
    using col by (simp add: tally_one_eq[OF col] Let_def count_of_def)
qed

theorem tally_one_accounts_for_every_row_witness:
  "variable_one yes_no \<in> set (columns yes_no_data) \<and>
   tally_one yes_no yes_no_data False = Inr ([2, 1], 3, 1)"
  using tally_one_accounts_for_every_row[of yes_no yes_no_data]
  by (simp add: yes_no_def yes_no_data_def tally_one_def get_column_def Let_def)

lemma set_compress: "set (compress xs ss) \<subseteq> set xs"
  by (induction xs ss rule: compress.induct) auto

lemma distinct_compress: "distinct xs \<Longrightarrow> distinct (compress xs ss)"
proof (induction xs ss rule: compress.induct)
  case (1 d ds s ss)
  have "d \<notin> set (compress ds ss)"
    using "1.prems" set_compress[of ds ss] by auto
  with 1 show ?case by simp
qed simp_all

lemma filter_member_Cons:
  "v \<notin> set vs \<Longrightarrow> length (filter (\<lambda>c. c \<in> Some ` set (v # vs)) col) =
      count_list col (Some v) + length (filter (\<lambda>c. c \<in> Some ` set vs) col)"
  by (induction col) auto

lemma sum_counts_distinct:
  "distinct vs \<Longrightarrow>
   sum_list (map (count_of col) vs) = int (length (filter (\<lambda>c. c \<in> Some ` set vs) col))"
proof (induction vs)
  case Nil
  then show ?case by simp
next
  case (Cons v vs)
  then show ?case using filter_member_Cons[of v vs col] by (simp add: count_of_def)
qed

lemma length_filter_compl:
  "int (length (filter (\<lambda>c. \<not> P c) col)) = int (length col) - int (length (filter P col))"
  using sum_length_filter_compl[of P col] by linarith

text \<open>
  C4, as the code has it. With exclusions removed the counts cover the retained values
  only, and a retained value that no row holds counts zero. The respondents are the sum
  of these counts and the non-respondents are the remaining rows of the column: when the
  values are pairwise different, a row is a respondent iff it holds a retained value, so
  a row holding an excluded value is a non-respondent, as a row with a missing cell is.
\<close>

theorem tally_one_remove_exclusions:
  assumes "variable_one q \<in> set (columns df)"
  shows "\<exists>col cts resp nonresp.
           get_column df (variable_one q) = Inr col \<and>
           tally_one q df True = Inr (cts, resp, nonresp) \<and>
           cts = map (\<lambda>v. int (count_list col (Some v)))
                     (retained (values_one q) (exclude_from_analysis_one q)) \<and>
           (\<forall>i < length cts.
              Some (retained (values_one q) (exclude_from_analysis_one q) ! i) \<notin> set col
                \<longrightarrow> cts ! i = 0) \<and>
           resp = sum_list cts \<and>
           nonresp = int (length (rows df)) - sum_list cts \<and>
           (distinct (values_one q) \<longrightarrow>
              resp = int (length (filter
                (\<lambda>c. c \<in> Some ` set (retained (values_one q) (exclude_from_analysis_one q))) col)) \<and>
              nonresp = int (length (filter
                (\<lambda>c. c \<notin> Some ` set (retained (values_one q) (exclude_from_analysis_one q))) col)))"
proof -
  from get_column_present[OF assms] obtain col where
    col: "get_column df (variable_one q) = Inr col" and len: "length col = length (rows df)"
    by blast
  let ?kept = "retained (values_one q) (exclude_from_analysis_one q)"
  let ?cts = "map (count_of col) ?kept"
  have t: "tally_one q df True = Inr (?cts, sum_list ?cts, int (length (rows df)) - sum_list ?cts)"
    by (simp add: tally_one_eq[OF col] Let_def)
  have zero: "\<forall>i < length ?cts. Some (?kept ! i) \<notin> set col \<longrightarrow> ?cts ! i = 0"
    by (simp add: count_of_def count_list_0_iff)
  have d: "distinct (values_one q) \<Longrightarrow>
             sum_list ?cts = int (length (filter (\<lambda>c. c \<in> Some ` set ?kept) col))"
    by (rule sum_counts_distinct) (simp add: retained_def distinct_compress)
  have n: "distinct (values_one q) \<Longrightarrow>
             int (length (rows df)) - sum_list ?cts
               = int (length (filter (\<lambda>c. c \<notin> Some ` set ?kept) col))"
    using d len length_filter_compl[of "\<lambda>c. c \<in> Some ` set ?kept" col] by simp
  have cts: "?cts = map (\<lambda>v. int (count_list col (Some v))) ?kept"
    by (simp add: count_of_def)
  show ?thesis
    apply (rule exI[of _ col], rule exI[of _ ?cts], rule exI[of _ "sum_list ?cts"],
           rule exI[of _ "int (length (rows df)) - sum_list ?cts"])
    apply (intro conjI impI)
    subgoal by (rule col)
    subgoal by (rule t)
    subgoal by (rule cts)
    subgoal by (rule zero)
    subgoal by simp
    subgoal by simp
    subgoal by (erule d)
    subgoal by (erule n)
    done
qed

theorem tally_one_remove_exclusions_witness:
  "variable_one yes_no_dk \<in> set (columns dk_data) \<and>
   distinct (values_one yes_no_dk) \<and>
   tally_one yes_no_dk dk_data True = Inr ([1, 0], 1, 1)"
  using tally_one_remove_exclusions[of yes_no_dk dk_data]
  by (simp add: yes_no_dk_def dk_data_def tally_one_def get_column_def Let_def retained_def)


text \<open>
  C4, as the specification states it, fails: of the two rows below both hold a value, one
  of them the excluded value 3, and the tally reports one respondent and one
  non-respondent.
\<close>

theorem tally_one_excluded_row_counterexample:
  "get_column dk_data (variable_one yes_no_dk) = Inr [Some 1, Some 3] \<and>
   answered [Some 1, Some 3] = 2 \<and>
   tally_one yes_no_dk dk_data True = Inr ([1, 0], 1, 1) \<and>
   (1 :: int) \<noteq> answered [Some 1, Some 3]"
  by (simp add: yes_no_dk_def dk_data_def tally_one_def get_column_def Let_def retained_def answered_def)

lemma mean_one_eq:
  assumes "get_column df (variable_one q) = Inr col"
  shows "mean_one q df re =
    (let vals = (if re then retained (values_one q) (exclude_from_analysis_one q) else values_one q);
         n = sum_list (map (count_of col) vals);
         num = sum_list (map (\<lambda>v. count_of col v * v) vals)
     in if n > 0 then Inr (Fin (of_int num / of_int n)) else Inr NaN)"
proof -
  have z: "\<And>vals::int list. map (\<lambda>(ct, v). ct * v) (zip (map (count_of col) vals) vals)
            = map (\<lambda>v. count_of col v * v) vals"
    by (simp add: zip_map1 zip_same_conv_map)
  show ?thesis
    by (simp add: mean_one_def tally_one_eq[OF assms] Let_def truediv_def z)
qed

text \<open>
  C8. On a dataset that has the answer variable, the mean is the sum of value times
  frequency over the (retained) values, divided by the respondents of the tally, and
  not-a-number when the tally has no respondent; no input makes it divide by zero.
\<close>

theorem mean_one_guarded:
  "(variable_one q \<in> set (columns df) \<longrightarrow>
      (\<exists>col cts resp nonresp.
         get_column df (variable_one q) = Inr col \<and>
         tally_one q df re = Inr (cts, resp, nonresp) \<and>
         mean_one q df re =
           Inr (if resp > 0
                then Fin (of_int (sum_list (map (\<lambda>v. int (count_list col (Some v)) * v)
                       (if re then retained (values_one q) (exclude_from_analysis_one q)
                        else values_one q))) / of_int resp)
                else NaN))) \<and>
   mean_one q df re \<noteq> Inl ZeroDivisionError"
proof (intro conjI impI)
  assume "variable_one q \<in> set (columns df)"
  from get_column_present[OF this] obtain col where
    col: "get_column df (variable_one q) = Inr col" by blast
  show "\<exists>col cts resp nonresp.
         get_column df (variable_one q) = Inr col \<and>
         tally_one q df re = Inr (cts, resp, nonresp) \<and>
         mean_one q df re =
           Inr (if resp > 0
                then Fin (of_int (sum_list (map (\<lambda>v. int (count_list col (Some v)) * v)
                       (if re then retained (values_one q) (exclude_from_analysis_one q)
                        else values_one q))) / of_int resp)
                else NaN)"
    using col by (simp add: tally_one_eq[OF col] mean_one_eq[OF col] Let_def count_of_def)
next
  show "mean_one q df re \<noteq> Inl ZeroDivisionError"
    by (auto simp: mean_one_def tally_one_def get_column_def truediv_def Let_def
             split: sum.splits option.splits prod.splits)
qed


theorem mean_one_guarded_witness:
  "mean_one yes_no yes_no_data True = Inr (Fin (4 / 3)) \<and>
   mean_one yes_no no_answer_data True = Inr NaN"
  using mean_one_guarded[of yes_no yes_no_data True] mean_one_guarded[of yes_no no_answer_data True]
  by (simp add: yes_no_def yes_no_data_def no_answer_data_def mean_one_def tally_one_def get_column_def Let_def retained_def truediv_def)


section \<open>Properties of the multi-answer tally\<close>

lemma those_map_Some:
  "(\<forall>x \<in> set xs. f x \<noteq> None) \<Longrightarrow> \<exists>ys. those (map f xs) = Some ys \<and> length ys = length xs"
  by (induction xs) auto

lemma select_columns_present:
  assumes "set vars \<subseteq> set (columns df)"
  shows "\<exists>ur. select_columns df vars = Inr ur \<and> length ur = length (rows df) \<and>
              (\<forall>row \<in> set ur. length row = length vars)"
proof -
  have "\<forall>v \<in> set vars. index_of v (columns df) \<noteq> None"
    using assms by (auto simp: index_of_None)
  from those_map_Some[OF this] obtain idxs where
    "those (map (\<lambda>v. index_of v (columns df)) vars) = Some idxs" "length idxs = length vars"
    by blast
  then show ?thesis by (simp add: select_columns_def)
qed

lemma dropna_empty: "dropna row = [] \<longleftrightarrow> (\<forall>c \<in> set row. c = None)"
  by (induction row) (auto simp: dropna_def List.map_filter_simps split: option.splits)

lemma length_count_present: "length (count_present row ct cts) = length cts"
  by (induction row ct cts rule: count_present.induct) auto

lemma count_present_nth:
  "ct + length row \<le> length cts \<Longrightarrow> j < length cts \<Longrightarrow>
   count_present row ct cts ! j =
     cts ! j + (if ct \<le> j \<and> j < ct + length row \<and> row ! (j - ct) \<noteq> None then 1 else 0)"
proof (induction row ct cts rule: count_present.induct)
  case (1 ct cts)
  then show ?case by simp
next
  case (2 v vs ct cts)
  show ?case
  proof (cases "j = ct")
    case True
    then show ?thesis using 2 by (auto simp: nth_list_update)
  next
    case False
    then show ?thesis using 2 by (auto simp: nth_list_update nth_Cons')
  qed
qed

lemma count_present_row:
  "length row = length cts \<Longrightarrow> j < length cts \<Longrightarrow>
   count_present row 0 cts ! j = cts ! j + (if row ! j \<noteq> None then 1 else 0)"
  using count_present_nth[of 0 row cts j] by simp

lemma tally_rows_result:
  assumes "\<forall>row \<in> set ur. length row = length cts"
  shows "\<exists>cts'. tally_rows ur (cts, r, n) =
           (cts', r + int (length (filter (\<lambda>row. \<exists>c \<in> set row. c \<noteq> None) ur)),
                  n + int (length (filter (\<lambda>row. \<forall>c \<in> set row. c = None) ur))) \<and>
           length cts' = length cts \<and>
           (\<forall>j < length cts.
              cts' ! j = cts ! j + int (length (filter (\<lambda>row. row ! j \<noteq> None) ur)))"
  using assms
proof (induction ur arbitrary: cts r n)
  case Nil
  then show ?case by simp
next
  case (Cons row ur)
  show ?case
  proof (cases "dropna row = []")
    case True
    then have none: "\<forall>c \<in> set row. c = None" by (simp add: dropna_empty)
    have len: "length row = length cts" using Cons.prems by simp
    have nth: "\<forall>j < length cts. row ! j = None" using none len by simp
    from Cons.IH[of cts r "n + 1"] Cons.prems obtain cts' where
      "tally_rows ur (cts, r, n + 1) =
         (cts', r + int (length (filter (\<lambda>row. \<exists>c \<in> set row. c \<noteq> None) ur)),
          n + 1 + int (length (filter (\<lambda>row. \<forall>c \<in> set row. c = None) ur)))"
      "length cts' = length cts"
      "\<forall>j < length cts. cts' ! j = cts ! j + int (length (filter (\<lambda>row. row ! j \<noteq> None) ur))"
      by auto
    then show ?thesis using True none nth by simp
  next
    case False
    then have some: "\<not> (\<forall>c \<in> set row. c = None)" by (simp add: dropna_empty)
    have len: "length row = length cts" using Cons.prems by simp
    let ?c = "count_present row 0 cts"
    have lc: "length ?c = length cts" by (simp add: length_count_present)
    from Cons.IH[of ?c "r + 1" n] Cons.prems lc obtain cts' where
      "tally_rows ur (?c, r + 1, n) =
         (cts', r + 1 + int (length (filter (\<lambda>row. \<exists>c \<in> set row. c \<noteq> None) ur)),
          n + int (length (filter (\<lambda>row. \<forall>c \<in> set row. c = None) ur)))"
      "length cts' = length cts"
      "\<forall>j < length cts. cts' ! j = ?c ! j + int (length (filter (\<lambda>row. row ! j \<noteq> None) ur))"
      by auto
    then show ?thesis using False some count_present_row[OF len] by auto
  qed
qed


text \<open>
  C3. When the dataset has the (retained) choice variables, the multi-answer tally
  returns, per such variable, the number of rows whose cell is not missing; a row all of
  whose retained cells are missing is one non-respondent and every other row is one
  respondent, however many of its cells are present. On the example of the
  specification the result is ([2, 1], 2, 1).
\<close>

theorem tally_multi_counts:
  "(set (if re then retained (variables_multi q) (exclude_from_analysis_multi q)
         else variables_multi q) \<subseteq> set (columns df) \<longrightarrow>
      (\<exists>unit_record cts resp nonresp.
         select_columns df (if re then retained (variables_multi q) (exclude_from_analysis_multi q)
                            else variables_multi q) = Inr unit_record \<and>
         tally_multi q df re = Inr (cts, resp, nonresp) \<and>
         length cts = length (if re then retained (variables_multi q) (exclude_from_analysis_multi q)
                              else variables_multi q) \<and>
         (\<forall>j < length cts. cts ! j = int (length (filter (\<lambda>row. row ! j \<noteq> None) unit_record))) \<and>
         resp = int (length (filter (\<lambda>row. \<exists>c \<in> set row. c \<noteq> None) unit_record)) \<and>
         nonresp = int (length (filter (\<lambda>row. \<forall>c \<in> set row. c = None) unit_record)) \<and>
         resp + nonresp = int (length (rows df)))) \<and>
   tally_multi a_b a_b_data re = Inr ([2, 1], 2, 1)"
proof (intro conjI impI)
  let ?vars = "if re then retained (variables_multi q) (exclude_from_analysis_multi q)
               else variables_multi q"
  assume "set ?vars \<subseteq> set (columns df)"
  from select_columns_present[OF this] obtain ur where
    ur: "select_columns df ?vars = Inr ur" and len: "length ur = length (rows df)" and
    rows: "\<forall>row \<in> set ur. length row = length ?vars"
    by blast
  have "\<forall>row \<in> set ur. length row = length (replicate (length ?vars) (0::int))"
    using rows by simp
  from tally_rows_result[OF this, of 0 0] obtain cts where
    t: "tally_rows ur (replicate (length ?vars) 0, 0, 0) =
          (cts, int (length (filter (\<lambda>row. \<exists>c \<in> set row. c \<noteq> None) ur)),
                int (length (filter (\<lambda>row. \<forall>c \<in> set row. c = None) ur)))" and
    lc: "length cts = length ?vars" and
    nth: "\<forall>j < length ?vars. cts ! j = int (length (filter (\<lambda>row. row ! j \<noteq> None) ur))"
    by auto
  have tm: "tally_multi q df re =
          Inr (cts, int (length (filter (\<lambda>row. \<exists>c \<in> set row. c \<noteq> None) ur)),
                int (length (filter (\<lambda>row. \<forall>c \<in> set row. c = None) ur)))"
    using ur t by (simp add: tally_multi_def Let_def)
  have total: "int (length (filter (\<lambda>row. \<exists>c \<in> set row. c \<noteq> None) ur))
                + int (length (filter (\<lambda>row. \<forall>c \<in> set row. c = None) ur))
                = int (length (rows df))"
    using sum_length_filter_compl[of "\<lambda>row. \<exists>c \<in> set row. c \<noteq> None" ur] len by simp
  show "\<exists>unit_record cts resp nonresp.
         select_columns df ?vars = Inr unit_record \<and>
         tally_multi q df re = Inr (cts, resp, nonresp) \<and>
         length cts = length ?vars \<and>
         (\<forall>j < length cts. cts ! j = int (length (filter (\<lambda>row. row ! j \<noteq> None) unit_record))) \<and>
         resp = int (length (filter (\<lambda>row. \<exists>c \<in> set row. c \<noteq> None) unit_record)) \<and>
         nonresp = int (length (filter (\<lambda>row. \<forall>c \<in> set row. c = None) unit_record)) \<and>
         resp + nonresp = int (length (rows df))"
    apply (rule exI[of _ ur], rule exI[of _ cts])
    apply (intro exI conjI)
          apply (rule ur)
         apply (rule tm)
        apply (rule lc)
       apply (simp add: lc nth)
      apply (rule refl)
     apply (rule refl)
    apply (rule total)
    done
next
  show "tally_multi a_b a_b_data re = Inr ([2, 1], 2, 1)"
    by (cases re)
       (simp_all add: tally_multi_def a_b_def a_b_data_def select_columns_def retained_def
          dropna_def List.map_filter_simps Let_def)
qed

theorem tally_multi_counts_witness:
  "set (retained (variables_multi a_b) (exclude_from_analysis_multi a_b)) \<subseteq> set (columns a_b_data) \<and>
   select_columns a_b_data [''A'', ''B''] = Inr [[Some 1, None], [None, None], [Some 1, Some 1]] \<and>
   tally_multi a_b a_b_data True = Inr ([2, 1], 2, 1)"
proof -
  have v: "retained (variables_multi a_b) (exclude_from_analysis_multi a_b) = [''A'', ''B'']"
    by (simp add: a_b_def retained_def)
  have s: "select_columns a_b_data [''A'', ''B'']
             = Inr [[Some 1, None], [None, None], [Some 1, Some 1]]"
    by (simp add: a_b_data_def select_columns_def)
  have c: "columns a_b_data = [''A'', ''B'']" by (simp add: a_b_data_def)
  show ?thesis
    using tally_multi_counts[of True a_b a_b_data] by (simp add: v s c)
qed

section \<open>Group comparison of a single-answer question\<close>

lemma compare_groups_one_two_groups:
  assumes "length groupby = 2" and "group_data (variable_one q) groupby = Inr data"
  shows "compare_groups_one st q groupby pval =
           Inr (float_less (snd (ttest_ind st (data ! 0) (data ! 1) False)) pval)"
  using assms by (simp add: compare_groups_one_def split: prod.splits)

lemma compare_groups_one_not_two_groups:
  assumes "length groupby \<noteq> 2"
  shows "compare_groups_one st q groupby pval =
           (case group_data (variable_one q) groupby of Inl e \<Rightarrow> Inl e | Inr data \<Rightarrow> Inr False)"
  using assms by (simp add: compare_groups_one_def groups_keys_def split: sum.splits)

text \<open>
  C2. With three groups the comparison returns false whatever the tests would report and
  whatever the level: the branch that runs the one-way ANOVA asks for two group keys
  after the number of groups was found different from two, and both numbers are the
  number of groups.
\<close>

theorem compare_groups_one_three_groups:
  "group_data (variable_one yes_no) three_groups = Inr [[1, 1], [2, 2], [2]] \<and>
   length three_groups = 3 \<and>
   compare_groups_one st yes_no three_groups pval = Inr False"
  by (simp add: compare_groups_one_def groups_keys_def three_groups_def yes_no_def
        get_column_def dropna_def List.map_filter_simps)

lemma compare_groups_one_two_groups_example:
   "compare_groups_one st yes_no two_groups pval =
           Inr (float_less (snd (ttest_ind st [1, 1] [2, 2] False)) pval)"
  by (simp add: compare_groups_one_def groups_keys_def three_groups_def two_groups_def yes_no_def
        get_column_def dropna_def List.map_filter_simps split: prod.splits)

section \<open>Group comparison of a multi-answer question\<close>

lemma length_tally_rows: "length (fst (tally_rows ur state)) = length (fst state)"
  by (induction ur state rule: tally_rows.induct) (auto simp: length_count_present)

lemma tally_multi_length:
  "tally_multi q df re = Inr (cts, r, n) \<Longrightarrow>
   length cts = length (if re then retained (variables_multi q) (exclude_from_analysis_multi q)
                        else variables_multi q)"
  using length_tally_rows[of _ "(replicate _ 0, 0, 0)"]
  by (auto simp: tally_multi_def Let_def split: sum.splits if_splits) (metis fst_conv length_replicate)+

lemma group_tallies_lengths:
  "group_tallies q g re = Inr ts \<Longrightarrow>
   length ts = length g \<and>
   (\<forall>t \<in> set ts. length (fst t) =
      length (if re then retained (variables_multi q) (exclude_from_analysis_multi q)
              else variables_multi q))"
proof (induction g arbitrary: ts)
  case Nil
  then show ?case by simp
next
  case (Cons kd g)
  obtain k df where kd: "kd = (k, df)" by (cases kd)
  from Cons.prems kd obtain freqs r n ts' where
    t: "tally_multi q df re = Inr (freqs, r, n)" and
    g: "group_tallies q g re = Inr ts'" and ts: "ts = (freqs, r) # ts'"
    by (auto split: sum.splits prod.splits)
  show ?case using Cons.IH[OF g] tally_multi_length[OF t] ts by simp
qed

lemma fold_min_same: "\<forall>k \<in> set ks. k = n \<Longrightarrow> fold min ks n = (n::nat)"
  by (induction ks) auto

lemma zip_star_rect:
  assumes "xss \<noteq> []" and "\<forall>xs \<in> set xss. length xs = n"
  shows "zip_star xss = map (\<lambda>i. map (\<lambda>ys. ys ! i) xss) [0..<n]"
proof -
  obtain xs rest where x: "xss = xs # rest" using assms(1) by (cases xss) auto
  have "fold min (map length rest) (length xs) = n"
    using assms(2) x fold_min_same[of "map length rest" n] by simp
  then show ?thesis by (simp add: zip_star_def x)
qed

lemma collect_truediv:
  "d \<noteq> 0 \<Longrightarrow> collect (map (\<lambda>t. truediv t d) ts) = Inr (map (\<lambda>t. Fin (of_int t / of_int d)) ts)"
  by (induction ts) (auto simp: truediv_def)



lemma compare_groups_multi_body:
  assumes gt: "group_tallies q groupby re = Inr ts"
    and ne: "ts \<noteq> []"
    and rect: "\<forall>t \<in> set ts. length (fst t) = n"
    and d0: "sum_list (map snd ts) \<noteq> 0"
  shows "compare_groups_multi st q groupby re pval =
           Inr (map (\<lambda>j. float_less
                  (snd (chisquare st
                     (map (\<lambda>t. fst t ! j) ts)
                     (map (\<lambda>t. Fin (of_int (sum_list (map (\<lambda>t. fst t ! j) ts))
                                       / of_int (sum_list (map snd ts)) * of_int (snd t))) ts)))
                  pval) [0..<n])"
proof -
  let ?d = "sum_list (map snd ts)"
  let ?obs = "\<lambda>j. map (\<lambda>t. fst t ! j) ts"
  have zs: "zip_star (map fst ts) = map ?obs [0..<n]"
    using zip_star_rect[of "map fst ts" n] ne rect by (simp add: comp_def)
  let ?tot = "map (\<lambda>j. sum_list (?obs j)) [0..<n]"
  have tot: "map sum_list (zip_star (map fst ts)) = ?tot"
    by (simp add: zs comp_def)
  let ?share = "map (\<lambda>j. Fin (of_int (sum_list (?obs j)) / of_int ?d)) [0..<n]"
  have col: "collect (map (\<lambda>t. truediv t ?d) ?tot) = Inr ?share"
    using collect_truediv[OF d0, of ?tot] by (simp add: comp_def)
  have z3: "zip (map ?obs [0..<n]) (zip ?tot ?share)
              = map (\<lambda>j. (?obs j, sum_list (?obs j), Fin (of_int (sum_list (?obs j)) / of_int ?d)))
                    [0..<n]"
    by (simp add: zip_map_map zip_same_conv_map)
  show ?thesis
    apply (simp only: compare_groups_multi_def gt sum.case Let_def)
    apply (simp only: tot)
    apply (simp only: zs)
    apply (simp only: col sum.case z3)
    apply (simp add: comp_def split: prod.splits)
    done
qed

text \<open>
  C5, as the code has it. When every group's tally is available and at least one row of
  the grouping is a respondent, the comparison returns one flag per retained choice
  variable, whatever the number of groups: flag j is the chi-square test of choice j's
  counts per group against the expected counts, the expected count of a group being the
  choice's overall proportion (its total count over all respondents) times the group's
  respondents, and the flag says whether the p-value is below the level.
\<close>

theorem compare_groups_multi_result:
  assumes "group_tallies q groupby re = Inr ts" and "0 < sum_list (map snd ts)"
  shows "\<exists>sigs. compare_groups_multi st q groupby re pval = Inr sigs \<and>
           length sigs = length (if re then retained (variables_multi q) (exclude_from_analysis_multi q)
                                 else variables_multi q) \<and>
           (\<forall>j < length sigs.
              sigs ! j =
                float_less
                  (snd (chisquare st
                     (map (\<lambda>t. fst t ! j) ts)
                     (map (\<lambda>t. Fin (of_int (sum_list (map (\<lambda>t. fst t ! j) ts))
                                       / of_int (sum_list (map snd ts)) * of_int (snd t))) ts)))
                  pval)"
proof -
  define n where "n = length (if re then retained (variables_multi q) (exclude_from_analysis_multi q)
                              else variables_multi q)"
  have ne: "ts \<noteq> []" using assms(2) by auto
  have rect: "\<forall>t \<in> set ts. length (fst t) = n"
    using group_tallies_lengths[OF assms(1)] unfolding n_def by blast
  have d0: "sum_list (map snd ts) \<noteq> 0" using assms(2) by simp
  show ?thesis
    unfolding compare_groups_multi_body[OF assms(1) ne rect d0] n_def[symmetric]
    by simp
qed

lemma compare_groups_multi_no_groups: "compare_groups_multi st q [] re pval = Inr []"
  by (simp add: compare_groups_multi_def zip_star_def)

lemma tally_multi_present:
  assumes "set (if re then retained (variables_multi q) (exclude_from_analysis_multi q)
                else variables_multi q) \<subseteq> set (columns df)"
  shows "\<exists>t. tally_multi q df re = Inr t"
proof -
  from select_columns_present[OF assms] obtain ur where
    "select_columns df (if re then retained (variables_multi q) (exclude_from_analysis_multi q)
                        else variables_multi q) = Inr ur"
    by blast
  then have "tally_multi q df re =
      Inr (tally_rows ur
        (replicate (length (if re then retained (variables_multi q) (exclude_from_analysis_multi q)
                            else variables_multi q)) 0, 0, 0))"
    by (simp add: tally_multi_def Let_def)
  then show ?thesis by blast
qed

lemma group_tallies_present:
  assumes "\<forall>(k, df) \<in> set groupby.
             set (if re then retained (variables_multi q) (exclude_from_analysis_multi q)
                  else variables_multi q) \<subseteq> set (columns df)"
  shows "\<exists>ts. group_tallies q groupby re = Inr ts"
  using assms
proof (induction groupby)
  case Nil
  then show ?case by simp
next
  case (Cons kd groupby)
  obtain k df where kd: "kd = (k, df)" by (cases kd)
  have "set (if re then retained (variables_multi q) (exclude_from_analysis_multi q)
             else variables_multi q) \<subseteq> set (columns df)"
    using Cons.prems kd by simp
  from tally_multi_present[OF this] obtain cts r n where
    t: "tally_multi q df re = Inr (cts, r, n)" by (metis prod_cases3)
  from Cons.IH Cons.prems obtain ts where g: "group_tallies q groupby re = Inr ts" by auto
  show ?case by (simp add: kd t g)
qed

text \<open>
  C5, as the specification states it, fails for a grouping none of whose rows is a
  respondent: the overall proportion divides by the total of zero respondents.
\<close>

theorem compare_groups_multi_no_respondents_counterexample:
  "tally_multi a_b (snd (hd silent_group)) True = Inr ([0, 0], 0, 1) \<and>
   compare_groups_multi always_significant a_b silent_group True (5 / 100) = Inl ZeroDivisionError"
  by (simp add: compare_groups_multi_def silent_group_def a_b_def tally_multi_def
        select_columns_def retained_def dropna_def List.map_filter_simps zip_star_def truediv_def)

theorem compare_groups_multi_result_witness:
  "group_tallies a_b a_b_groups True = Inr [([1, 0], 1), ([1, 1], 1)] \<and>
   compare_groups_multi always_significant a_b a_b_groups True (5 / 100) = Inr [True, True]"
proof -
  have g: "group_tallies a_b a_b_groups True = Inr [([1, 0], 1), ([1, 1], 1)]"
    by (simp add: a_b_groups_def a_b_def tally_multi_def
        select_columns_def retained_def dropna_def List.map_filter_simps)
  have p: "0 < sum_list (map snd [([1, 0], 1), ([1, 1], 1::int)])" by simp
  from compare_groups_multi_result[OF g p, of always_significant "5 / 100"]
  obtain sigs where
    s: "compare_groups_multi always_significant a_b a_b_groups True (5 / 100) = Inr sigs"
    and l: "length sigs = 2"
    and n: "\<forall>j < length sigs. sigs ! j = True"
    by (auto simp: a_b_def retained_def always_significant_def)
  have "sigs = [True, True]"
    using l n by (auto simp: list_eq_iff_nth_eq nth_Cons' )
  then show ?thesis using g s by simp
qed

section \<open>Construction of a matrix\<close>

lemma same_type_refl: "same_type x x"
  by (cases x) auto

lemma same_type_sym: "same_type x y \<Longrightarrow> same_type y x"
  by (cases x; cases y) auto

lemma same_type_trans: "same_type x y \<Longrightarrow> same_type y z \<Longrightarrow> same_type x z"
  by (cases x; cases y; cases z) auto

lemma same_type_all_first:
  "list_all (\<lambda>x. same_type x q0) (q0 # rest) \<longleftrightarrow>
     (\<forall>x \<in> set (q0 # rest). \<forall>y \<in> set (q0 # rest). same_type x y)"
proof
  assume a: "list_all (\<lambda>x. same_type x q0) (q0 # rest)"
  then have "\<forall>x \<in> set (q0 # rest). same_type x q0" by (simp add: list_all_iff)
  then show "\<forall>x \<in> set (q0 # rest). \<forall>y \<in> set (q0 # rest). same_type x y"
    by (meson same_type_sym same_type_trans)
next
  assume "\<forall>x \<in> set (q0 # rest). \<forall>y \<in> set (q0 # rest). same_type x y"
  then show "list_all (\<lambda>x. same_type x q0) (q0 # rest)"
    by (simp add: list_all_iff)
qed

lemma same_choices_same_type:
  "same_type x y \<Longrightarrow> same_choices x y = Inr (choice_set x = choice_set y)"
  by (cases x; cases y) auto

lemma all_same_choices_same_type:
  "\<forall>x \<in> set qs. same_type x q0 \<Longrightarrow>
   all_same_choices q0 qs = Inr (\<forall>x \<in> set qs. choice_set x = choice_set q0)"
  by (induction qs) (auto simp: same_choices_same_type)

lemma assert_questions_same_type_iff:
  "assert_questions_same_type qs =
     (if \<forall>x \<in> set qs. \<forall>y \<in> set qs. same_type x y then Inr True
      else Inl (Exception ''Questions in a matrix must all have the same type''))"
proof (cases qs)
  case Nil
  then show ?thesis by (simp add: assert_questions_same_type_def)
next
  case (Cons q0 rest)
  show ?thesis
    unfolding Cons assert_questions_same_type_def list.case same_type_all_first by simp
qed

lemma assert_choices_same_iff:
  assumes "\<forall>x \<in> set qs. \<forall>y \<in> set qs. same_type x y"
  shows "assert_choices_same qs =
     (if \<forall>x \<in> set qs. \<forall>y \<in> set qs. choice_set x = choice_set y then Inr True
      else Inl (Exception ''Questions in a matrix must all have the same choices''))"
proof (cases qs)
  case Nil
  then show ?thesis by (simp add: assert_choices_same_def)
next
  case (Cons q0 rest)
  have st: "\<forall>x \<in> set qs. same_type x q0" using assms Cons by simp
  have eq: "(\<forall>x \<in> set qs. choice_set x = choice_set q0) \<longleftrightarrow>
            (\<forall>x \<in> set qs. \<forall>y \<in> set qs. choice_set x = choice_set y)"
    using Cons by auto
  show ?thesis
    using all_same_choices_same_type[OF st] eq
    by (simp add: assert_choices_same_def Cons)
qed

lemma same_type_set_matrix [simp]: "same_type (set_matrix l x) (set_matrix l y) = same_type x y"
  by (cases x; cases y) auto

lemma choice_set_set_matrix [simp]: "choice_set (set_matrix l x) = choice_set x"
  by (cases x) auto

lemma question_get_choices2_set_matrix [simp]:
  "question_get_choices2 (set_matrix l x) re sv = question_get_choices2 x re sv"
  by (cases x) (auto simp: get_choices_one_def Let_def)

lemma question_get_choices1_set_matrix [simp]:
  "question_get_choices1 (set_matrix l x) re = question_get_choices1 x re"
  by (cases x) (auto simp: get_choices_one_def get_choices_multi_def Let_def)

lemma question_get_choices2_cong:
  "same_type x y \<Longrightarrow> choice_set x = choice_set y \<Longrightarrow>
   question_get_choices2 x re sv = question_get_choices2 y re sv"
  by (cases x; cases y) (auto simp: get_choices_one_def Let_def)

lemma question_get_choices1_cong:
  "same_type x y \<Longrightarrow> choice_set x = choice_set y \<Longrightarrow>
   question_get_choices1 x re = question_get_choices1 y re"
  by (cases x; cases y) (auto simp: get_choices_one_def get_choices_multi_def Let_def)


lemma same_type_map_set_matrix:
  "(\<forall>x \<in> set (map (set_matrix l) qs). \<forall>y \<in> set (map (set_matrix l) qs). same_type x y)
     \<longleftrightarrow> (\<forall>x \<in> set qs. \<forall>y \<in> set qs. same_type x y)"
  by simp

lemma choice_set_map_set_matrix:
  "(\<forall>x \<in> set (map (set_matrix l) qs). \<forall>y \<in> set (map (set_matrix l) qs).
      choice_set x = choice_set y)
     \<longleftrightarrow> (\<forall>x \<in> set qs. \<forall>y \<in> set qs. choice_set x = choice_set y)"
  by simp

text \<open>
  C6. Construction of a matrix from any list of children: it fails with the exception
  naming the type invariant when two children differ in their class; with the exception
  naming the choice invariant when the classes agree and two children differ in their
  choice set (labels, values, exclusion flags, in order); and succeeds otherwise. On the
  matrix it returns, \<^verbatim>\<open>get_choices\<close> of either matrix class gives what the same call
  gives on any of its children.
\<close>

theorem matrix_construction:
  "(\<not> (\<forall>x \<in> set qs. \<forall>y \<in> set qs. same_type x y) \<longrightarrow>
      MatrixQuestion_init text label qs =
        Inl (Exception ''Questions in a matrix must all have the same type'')) \<and>
   ((\<forall>x \<in> set qs. \<forall>y \<in> set qs. same_type x y) \<and>
    \<not> (\<forall>x \<in> set qs. \<forall>y \<in> set qs. choice_set x = choice_set y) \<longrightarrow>
      MatrixQuestion_init text label qs =
        Inl (Exception ''Questions in a matrix must all have the same choices'')) \<and>
   ((\<forall>x \<in> set qs. \<forall>y \<in> set qs. same_type x y) \<and>
    (\<forall>x \<in> set qs. \<forall>y \<in> set qs. choice_set x = choice_set y) \<longrightarrow>
      (\<exists>m. MatrixQuestion_init text label qs = Inr m \<and>
           questions m = map (set_matrix label) qs \<and>
           (\<forall>c \<in> set (questions m).
              get_choices_one_matrix m re sv = question_get_choices2 c re sv \<and>
              get_choices_multi_matrix m re = question_get_choices1 c re)))"
proof (intro conjI impI)
  assume nt: "\<not> (\<forall>x \<in> set qs. \<forall>y \<in> set qs. same_type x y)"
  have "assert_questions_same_type qs =
          Inl (Exception ''Questions in a matrix must all have the same type'')"
    unfolding assert_questions_same_type_iff using nt by (rule if_not_P)
  then show "MatrixQuestion_init text label qs =
               Inl (Exception ''Questions in a matrix must all have the same type'')"
    by (simp add: MatrixQuestion_init_def)
next
  assume a: "(\<forall>x \<in> set qs. \<forall>y \<in> set qs. same_type x y) \<and>
             \<not> (\<forall>x \<in> set qs. \<forall>y \<in> set qs. choice_set x = choice_set y)"
  then have t: "\<forall>x \<in> set qs. \<forall>y \<in> set qs. same_type x y" by blast
  have nc: "\<not> (\<forall>x \<in> set qs. \<forall>y \<in> set qs. choice_set x = choice_set y)"
    using a by blast
  have ty: "assert_questions_same_type qs = Inr True"
    unfolding assert_questions_same_type_iff using t by (rule if_P)
  have ch: "assert_choices_same qs =
              Inl (Exception ''Questions in a matrix must all have the same choices'')"
    unfolding assert_choices_same_iff[OF t] using nc by (rule if_not_P)
  show "MatrixQuestion_init text label qs =
          Inl (Exception ''Questions in a matrix must all have the same choices'')"
    by (simp add: MatrixQuestion_init_def ty ch)
next
  assume a: "(\<forall>x \<in> set qs. \<forall>y \<in> set qs. same_type x y) \<and>
             (\<forall>x \<in> set qs. \<forall>y \<in> set qs. choice_set x = choice_set y)"
  then have t: "\<forall>x \<in> set qs. \<forall>y \<in> set qs. same_type x y"
    and c: "\<forall>x \<in> set qs. \<forall>y \<in> set qs. choice_set x = choice_set y" by blast+
  let ?qs = "map (set_matrix label) qs"
  let ?m = "\<lparr>text_matrix = text, questions = ?qs, label_matrix = label\<rparr>"
  have ty: "assert_questions_same_type qs = Inr True"
    unfolding assert_questions_same_type_iff using t by (rule if_P)
  have ch: "assert_choices_same qs = Inr True"
    unfolding assert_choices_same_iff[OF t] using c by (rule if_P)
  have init: "MatrixQuestion_init text label qs = Inr ?m"
    by (simp add: MatrixQuestion_init_def ty ch assign_children_to_matrix_def)
  have t': "\<forall>x \<in> set ?qs. \<forall>y \<in> set ?qs. same_type x y"
    using t by (simp only: same_type_map_set_matrix)
  have c': "\<forall>x \<in> set ?qs. \<forall>y \<in> set ?qs. choice_set x = choice_set y"
    using c by (simp only: choice_set_map_set_matrix)
  have ok: "assert_choices_same ?qs = Inr True"
    unfolding assert_choices_same_iff[OF t'] using c' by (rule if_P)
  have child: "get_choices_one_matrix ?m re sv = question_get_choices2 k re sv \<and>
               get_choices_multi_matrix ?m re = question_get_choices1 k re"
    if k: "k \<in> set ?qs" for k
  proof (cases ?qs)
    case Nil
    then show ?thesis using k by simp
  next
    case (Cons q0 rest)
    have q0: "q0 \<in> set ?qs" by (simp add: Cons)
    have st: "same_type q0 k" using t' q0 k by blast
    have cs: "choice_set q0 = choice_set k" using c' q0 k by blast
    have g2: "question_get_choices2 q0 re sv = question_get_choices2 k re sv"
      using st cs by (rule question_get_choices2_cong)
    have g1: "question_get_choices1 q0 re = question_get_choices1 k re"
      using st cs by (rule question_get_choices1_cong)
    have m2: "get_choices_one_matrix ?m re sv = question_get_choices2 q0 re sv"
      by (simp add: get_choices_one_matrix_def ok[unfolded Cons] Cons)
    have m1: "get_choices_multi_matrix ?m re = question_get_choices1 q0 re"
      by (simp add: get_choices_multi_matrix_def ok[unfolded Cons] Cons)
    show ?thesis
      unfolding m2 m1 g2 g1 by simp
  qed
  show "\<exists>m. MatrixQuestion_init text label qs = Inr m \<and>
           questions m = map (set_matrix label) qs \<and>
           (\<forall>c \<in> set (questions m).
              get_choices_one_matrix m re sv = question_get_choices2 c re sv \<and>
              get_choices_multi_matrix m re = question_get_choices1 c re)"
    apply (rule exI[of _ ?m])
    apply (intro conjI ballI)
       apply (rule init)
      apply simp
     apply (rule child[THEN conjunct1])
     apply simp
    apply (rule child[THEN conjunct2])
    apply simp
    done
qed


theorem matrix_construction_witness:
  "MatrixQuestion_init ''Grid'' ''M1'' [SelectOne yes_no, SelectMultiple a_b] =
     Inl (Exception ''Questions in a matrix must all have the same type'') \<and>
   MatrixQuestion_init ''Grid'' ''M1'' [SelectOne yes_no, SelectOne yes_no_dk] =
     Inl (Exception ''Questions in a matrix must all have the same choices'') \<and>
   (\<exists>m. MatrixQuestion_init ''Grid'' ''M1'' [SelectOne yes_no, SelectOne wide_yes_no] = Inr m \<and>
        get_choices_one_matrix m True False = Inr [''Yes'', ''No''] \<and>
        get_choices_multi_matrix m True = Inr [''Yes'', ''No''])"
proof (intro conjI)
  have "\<not> (\<forall>x \<in> set [SelectOne yes_no, SelectMultiple a_b].
             \<forall>y \<in> set [SelectOne yes_no, SelectMultiple a_b]. same_type x y)"
    by simp
  with matrix_construction[of "[SelectOne yes_no, SelectMultiple a_b]" "''Grid''" "''M1''"]
  show "MatrixQuestion_init ''Grid'' ''M1'' [SelectOne yes_no, SelectMultiple a_b] =
          Inl (Exception ''Questions in a matrix must all have the same type'')"
    by blast
next
  have "(\<forall>x \<in> set [SelectOne yes_no, SelectOne yes_no_dk].
           \<forall>y \<in> set [SelectOne yes_no, SelectOne yes_no_dk]. same_type x y) \<and>
        \<not> (\<forall>x \<in> set [SelectOne yes_no, SelectOne yes_no_dk].
             \<forall>y \<in> set [SelectOne yes_no, SelectOne yes_no_dk]. choice_set x = choice_set y)"
    by (simp add: yes_no_def yes_no_dk_def)
  with matrix_construction[of "[SelectOne yes_no, SelectOne yes_no_dk]" "''Grid''" "''M1''"]
  show "MatrixQuestion_init ''Grid'' ''M1'' [SelectOne yes_no, SelectOne yes_no_dk] =
          Inl (Exception ''Questions in a matrix must all have the same choices'')"
    by blast
next
  let ?qs = "[SelectOne yes_no, SelectOne wide_yes_no]"
  have h: "(\<forall>x \<in> set ?qs. \<forall>y \<in> set ?qs. same_type x y) \<and>
        (\<forall>x \<in> set ?qs. \<forall>y \<in> set ?qs. choice_set x = choice_set y)"
    by (simp add: yes_no_def wide_yes_no_def)
  from matrix_construction[of ?qs "''Grid''" "''M1''" True False] h
  obtain m where
    m: "MatrixQuestion_init ''Grid'' ''M1'' ?qs = Inr m" and
    q: "questions m = map (set_matrix ''M1'') ?qs" and
    c: "\<forall>c \<in> set (questions m).
              get_choices_one_matrix m True False = question_get_choices2 c True False \<and>
              get_choices_multi_matrix m True = question_get_choices1 c True"
    by blast
  have "SelectOne (yes_no\<lparr>matrix_one := Some ''M1''\<rparr>) \<in> set (questions m)"
    by (simp add: q)
  with c have
    "get_choices_one_matrix m True False =
       question_get_choices2 (SelectOne (yes_no\<lparr>matrix_one := Some ''M1''\<rparr>)) True False"
    "get_choices_multi_matrix m True =
       question_get_choices1 (SelectOne (yes_no\<lparr>matrix_one := Some ''M1''\<rparr>)) True"
    by blast+
  then have "get_choices_one_matrix m True False = Inr [''Yes'', ''No'']"
    and "get_choices_multi_matrix m True = Inr [''Yes'', ''No'']"
    by (simp_all add: get_choices_one_def yes_no_def retained_def)
  with m show "\<exists>m. MatrixQuestion_init ''Grid'' ''M1'' ?qs = Inr m \<and>
        get_choices_one_matrix m True False = Inr [''Yes'', ''No''] \<and>
        get_choices_multi_matrix m True = Inr [''Yes'', ''No'']"
    by blast
qed

section \<open>Frequency table of a multi-answer matrix\<close>

text \<open>
  C7. On a multi-answer matrix the two percent modes, which the method recognises, do not
  produce a table: both raise AttributeError before any child is tabulated, whatever the
  matrix and the dataset.
\<close>

theorem frequency_table_multi_matrix_percent_modes:
  "frequency_table_multi_matrix m df ''pct_respondents'' pct_format re show_totals
     = Inl AttributeError \<and>
   frequency_table_multi_matrix m df ''pct_responses'' pct_format re show_totals
     = Inl AttributeError"
  by (simp add: frequency_table_multi_matrix_def)

lemma frequency_table_multi_matrix_invalid_mode:
  "show \<noteq> ''ct'' \<Longrightarrow> show \<noteq> ''pct_respondents'' \<Longrightarrow> show \<noteq> ''pct_responses'' \<Longrightarrow>
   frequency_table_multi_matrix m df show pct_format re show_totals =
     Inl (Exception (''Invalid 'show' parameter: '' @ show))"
  by (simp add: frequency_table_multi_matrix_def)

lemma map_of_replace:
  "name \<in> set (map fst cs) \<Longrightarrow>
   map_of (map (\<lambda>(n, col). if n = name then (n, cells) else (n, col)) cs) name = Some cells"
  by (induction cs) auto

lemma set_column_lookup:
  assumes "set_column tbl name cells = Inr tbl'"
  shows "table_column tbl' name = Some cells"
proof (cases "name \<in> set (map fst (cols tbl))")
  case True
  then have "cols tbl' = map (\<lambda>(n, col). if n = name then (n, cells) else (n, col)) (cols tbl)"
    using assms by (auto simp: set_column_def split: if_splits)
  then show ?thesis using map_of_replace[OF True] by (simp add: table_column_def)
next
  case False
  then have c: "cols tbl' = cols tbl @ [(name, cells)]"
    using assms by (auto simp: set_column_def split: if_splits)
  have "map_of (cols tbl) name = None"
    using False by (simp add: map_of_eq_None_iff)
  then show ?thesis by (simp add: table_column_def c map_add_def)
qed

lemma collect_Inr:
  "collect xs = Inr ys \<Longrightarrow> list_all2 (\<lambda>x y. x = Inr y) xs ys"
proof (induction xs arbitrary: ys rule: collect.induct)
  case 1
  then show ?case by simp
next
  case (2 e rest)
  then show ?case by simp
next
  case (3 x rest)
  then show ?case by (auto split: sum.splits)
qed

lemma get_total_respondents_Inr:
  "get_total_respondents q df = Inr r \<Longrightarrow> \<exists>cts n. question_tally q df True = Inr (cts, r, n)"
  by (auto simp: get_total_respondents_def split: sum.splits)

text \<open>
  C10. For a question of either class, \<^verbatim>\<open>get_total_respondents\<close> is the respondent
  count of the tally with exclusions removed (and fails as that tally fails). Whenever
  the frequency table of a multi-answer matrix is returned with totals, its column
  Total Respondents holds, child by child, that exclusion-removed count, also when the
  table itself was asked for without removing exclusions.
\<close>

theorem total_respondents_exclusions_removed:
  "get_total_respondents (SelectOne s) df =
     (case tally_one s df True of Inl e \<Rightarrow> Inl e | Inr (cts, resp, nonresp) \<Rightarrow> Inr resp) \<and>
   get_total_respondents (SelectMultiple t) df =
     (case tally_multi t df True of Inl e \<Rightarrow> Inl e | Inr (cts, resp, nonresp) \<Rightarrow> Inr resp) \<and>
   (frequency_table_multi_matrix m df show pct_format re True = Inr tbl \<longrightarrow>
      (\<exists>tots. table_column tbl ''Total Respondents'' = Some (map Count tots) \<and>
              list_all2 (\<lambda>q r. \<exists>cts n. question_tally q df True = Inr (cts, r, n))
                        (questions m) tots))"
proof (intro conjI impI)
  show "get_total_respondents (SelectOne s) df =
     (case tally_one s df True of Inl e \<Rightarrow> Inl e | Inr (cts, resp, nonresp) \<Rightarrow> Inr resp)"
    by (simp add: get_total_respondents_def)
next
  show "get_total_respondents (SelectMultiple t) df =
     (case tally_multi t df True of Inl e \<Rightarrow> Inl e | Inr (cts, resp, nonresp) \<Rightarrow> Inr resp)"
    by (simp add: get_total_respondents_def)
next
  assume a: "frequency_table_multi_matrix m df show pct_format re True = Inr tbl"
  then obtain tbl2 tots where
    c: "collect (map (\<lambda>q. get_total_respondents q df) (questions m)) = Inr tots" and
    s: "set_column tbl2 ''Total Respondents'' (map Count tots) = Inr tbl"
    by (auto simp: frequency_table_multi_matrix_def Let_def split: sum.splits if_splits)
  have "list_all2 (\<lambda>x y. x = Inr y) (map (\<lambda>q. get_total_respondents q df) (questions m)) tots"
    by (rule collect_Inr[OF c])
  then have "list_all2 (\<lambda>q r. get_total_respondents q df = Inr r) (questions m) tots"
    by (simp add: list_all2_map1)
  then have l: "list_all2 (\<lambda>q r. \<exists>cts n. question_tally q df True = Inr (cts, r, n))
                  (questions m) tots"
    by (rule list_all2_mono) (rule get_total_respondents_Inr)
  show "\<exists>tots. table_column tbl ''Total Respondents'' = Some (map Count tots) \<and>
              list_all2 (\<lambda>q r. \<exists>cts n. question_tally q df True = Inr (cts, r, n))
                        (questions m) tots"
    using set_column_lookup[OF s] l by blast
qed

lemma frequency_table_multi_matrix_example:
  "frequency_table_multi_matrix home_work a_b_other_data ''ct'' ''.0%'' False True =
    Inr \<lparr>height = 2,
        cols =
          [(''Question'',
            [Text ''Which apply at home?'', Text ''Which apply at work?'']),
           (''Option A'', [Count 1, Count 1]),
           (''Option B'', [Count 0, Count 0]),
           (''Other'', [Count 1, Count 1]),
           (''Total Respondents'', [Count 1, Count 1])]\<rparr>"
  by code_simp


theorem total_respondents_exclusions_removed_witness:
  "tally_multi a_b_other a_b_other_data False = Inr ([1, 0, 1], 2, 1) \<and>
   tally_multi a_b_other a_b_other_data True = Inr ([1, 0], 1, 2) \<and>
   get_total_respondents (SelectMultiple a_b_other) a_b_other_data = Inr 1 \<and>
   (\<exists>tbl. frequency_table_multi_matrix home_work a_b_other_data ''ct'' ''.0%'' False True = Inr tbl \<and>
          table_column tbl ''Option A'' = Some [Count 1, Count 1] \<and>
          table_column tbl ''Other'' = Some [Count 1, Count 1] \<and>
          table_column tbl ''Total Respondents'' = Some [Count 1, Count 1])"
proof -
  have f: "tally_multi a_b_other a_b_other_data False = Inr ([1, 0, 1], 2, 1)"
    by code_simp
  have t: "tally_multi a_b_other a_b_other_data True = Inr ([1, 0], 1, 2)"
    by code_simp
  note inst = total_respondents_exclusions_removed[of yes_no a_b_other_data a_b_other
      home_work "''ct''" "''.0%''" False]
  have g: "get_total_respondents (SelectMultiple a_b_other) a_b_other_data = Inr 1"
    using inst t by simp
  let ?tbl = "\<lparr>height = 2,
        cols =
          [(''Question'',
            [Text ''Which apply at home?'', Text ''Which apply at work?'']),
           (''Option A'', [Count 1, Count 1]),
           (''Option B'', [Count 0, Count 0]),
           (''Other'', [Count 1, Count 1]),
           (''Total Respondents'', [Count 1, Count 1])]\<rparr>"
  have e: "frequency_table_multi_matrix home_work a_b_other_data ''ct'' ''.0%'' False True = Inr ?tbl"
    by (rule frequency_table_multi_matrix_example)
  have c: "table_column ?tbl ''Option A'' = Some [Count 1, Count 1] \<and>
           table_column ?tbl ''Other'' = Some [Count 1, Count 1] \<and>
           table_column ?tbl ''Total Respondents'' = Some [Count 1, Count 1]"
    by (simp add: table_column_def)
  show ?thesis using f t g e c by blast
qed

section \<open>Keys of the cross-tabulation\<close>

lemma cut_series_length:
  "cut_series q groups mapping pct_format re show_mean mean_format = Inr freqs \<Longrightarrow>
   length freqs = length groups"
proof (induction groups arbitrary: freqs)
  case Nil
  then show ?case by simp
next
  case (Cons kg groups)
  obtain k gp where kg: "kg = (k, gp)" by (cases kg)
  from Cons.prems kg obtain name idx vals series where
    "cut_series q groups mapping pct_format re show_mean mean_format = Inr series"
    "freqs = (name, idx, vals) # series"
    by (auto split: sum.splits option.splits prod.splits)
  then show ?case using Cons.IH by simp
qed

lemma from_arrays_fst: "from_arrays upper labels = Inr keys \<Longrightarrow> map fst keys = upper"
  by (auto simp: from_arrays_def split: if_splits)

lemma from_arrays_snd: "from_arrays upper labels = Inr keys \<Longrightarrow> map snd keys = labels"
  by (auto simp: from_arrays_def split: if_splits)

lemma compress_no_selectors: "compress xs [] = []"
  by (cases xs) auto

lemma length_compress_cong:
  "length xs = length ys \<Longrightarrow> length (compress xs ss) = length (compress ys ss)"
proof (induction xs ss arbitrary: ys rule: compress.induct)
  case (1 d ds s ss)
  then obtain y ys' where "ys = y # ys'" by (cases ys) auto
  with 1 show ?case by auto
qed (simp_all add: compress_no_selectors)

lemma length_get_choices_one:
  assumes "well_formed_one q"
  shows "length (get_choices_one q re sv) =
         length (if re then retained (values_one q) (exclude_from_analysis_one q) else values_one q)"
proof -
  have r: "length (retained (choices_one q) (exclude_from_analysis_one q)) =
           length (retained (values_one q) (exclude_from_analysis_one q))"
    using assms unfolding retained_def well_formed_one_def
    by (intro length_compress_cong) simp
  show ?thesis
    using assms r by (auto simp: get_choices_one_def Let_def well_formed_one_def)
qed

lemma padded_pair: "length a = length b \<Longrightarrow> padded [a, b] = [a, b]"
  by (simp add: padded_def)

lemma frequency_table_one_answer_series:
  assumes "well_formed_one q"
    and "frequency_table_one q gp True False True pct_format re False show_mean mean_format = Inr t"
  shows "\<exists>vals. answer_series t = Inr (answer_labels q re show_mean, vals)"
proof -
  from assms(2) obtain cts resp nonresp where
    ta: "tally_one q gp re = Inr (cts, resp, nonresp)"
    by (auto simp: frequency_table_one_def split: sum.splits)
  have lc: "length cts =
            length (if re then retained (values_one q) (exclude_from_analysis_one q) else values_one q)"
    using ta by (auto simp: tally_one_def Let_def split: sum.splits)
  have eq: "length (map Text (get_choices_one q re show_mean)) =
            length (map (\<lambda>x. if resp > 0
                                then Formatted (Fin (of_int x / of_int resp)) pct_format
                                else Text ''-'') cts)"
    using length_get_choices_one[OF assms(1), of re show_mean] lc by simp
  show ?thesis
    using assms(2) ta padded_pair[OF eq]
    by (auto simp: frequency_table_one_def frame_of_columns_def append_row_def Let_def
          answer_series_def answer_labels_def split: sum.splits if_splits)
qed


lemma cut_series_index:
  assumes "well_formed_one q"
  shows "cut_series q groups mapping pct_format re show_mean mean_format = Inr freqs \<Longrightarrow>
         \<forall>(name, idx, vals) \<in> set freqs. idx = answer_labels q re show_mean"
proof (induction groups arbitrary: freqs)
  case Nil
  then show ?case by simp
next
  case (Cons kg groups)
  obtain k gp where kg: "kg = (k, gp)" by (cases kg)
  from Cons.prems kg obtain t name idx vals series where
    ft: "frequency_table_one q gp True False True pct_format re False show_mean mean_format = Inr t"
    and an: "answer_series t = Inr (idx, vals)"
    and cs: "cut_series q groups mapping pct_format re show_mean mean_format = Inr series"
    and fr: "freqs = (name, idx, vals) # series"
    by (auto split: sum.splits option.splits prod.splits)
  from frequency_table_one_answer_series[OF assms ft] an
  have "idx = answer_labels q re show_mean" by auto
  then show ?case using Cons.IH[OF cs] fr by simp
qed

lemma star_last_Mean:
  "star_last (xs @ [Text ''Mean'']) = Inr (xs @ [Text ''Mean*''])"
  by (simp add: star_last_def)

lemma cut_by_one_sub_columns:
  assumes wf: "well_formed_one q" and ne: "groups \<noteq> []"
    and cut: "cut_by_one st q groups mapping cut_var_label question_label pct_format re show_mean
           mean_format = Inr tbl"
  shows "map snd (column_index tbl) =
           map Text (get_choices_one q re show_mean) @
           (if show_mean
            then [if compare_groups_one st q groups (5 / 100) = Inr True
                  then Text ''Mean*'' else Text ''Mean'']
            else [])"
proof -
  from cut obtain freqs where
    fr: "cut_series q groups mapping pct_format re show_mean mean_format = Inr freqs"
    unfolding cut_by_one_def
    by (cases "cut_series q groups mapping pct_format re show_mean mean_format") auto
  have "length freqs = length groups" by (rule cut_series_length[OF fr])
  then obtain name idx vals rest where f: "freqs = (name, idx, vals) # rest"
    using ne by (cases freqs) auto
  have idx: "idx = answer_labels q re show_mean"
    using cut_series_index[OF wf fr] f by simp
  have cols0: "(case freqs of [] \<Rightarrow> [] | (name, idx, vals) # rest \<Rightarrow> idx)
                 = answer_labels q re show_mean"
    by (simp add: f idx)
  note cut' = cut[unfolded cut_by_one_def Let_def fr sum.case cols0]
  show ?thesis
  proof (cases show_mean)
    case False
    with cut' show ?thesis
      by (auto simp: answer_labels_def from_arrays_def split: sum.splits if_splits)
  next
    case True
    show ?thesis
    proof (cases "compare_groups_one st q groups (5 / 100)")
      case (Inl e)
      with cut' True show ?thesis by simp
    next
      case (Inr significant)
      with cut' True show ?thesis
        by (cases significant)
           (auto simp: answer_labels_def from_arrays_def star_last_Mean
                 split: sum.splits if_splits)
    qed
  qed
qed

lemma retained_nothing_excluded:
  "length xs = length excl \<Longrightarrow> \<forall>x \<in> set excl. \<not> x \<Longrightarrow> retained xs excl = xs"
  unfolding retained_def
  by (induction xs excl rule: list_induct2) auto

lemma frequency_table_one_percent_returns:
  assumes "variable_one q \<in> set (columns gp)"
  shows "\<exists>t. frequency_table_one q gp True False True pct_format re False show_mean mean_format
               = Inr t"
proof -
  from get_column_present[OF assms] obtain col where
    col: "get_column gp (variable_one q) = Inr col" by blast
  obtain m where m: "mean_one q gp re = Inr m"
    using mean_one_eq[OF col, of re] by (auto simp: Let_def split: if_splits)
  show ?thesis
    by (simp add: frequency_table_one_def tally_one_eq[OF col] m Let_def frame_of_columns_def)
qed

lemma cut_series_returns:
  assumes wf: "well_formed_one q"
  shows "\<forall>(k, gp) \<in> set groups. variable_one q \<in> set (columns gp) \<and> mapping k \<noteq> None \<Longrightarrow>
         \<exists>freqs. cut_series q groups mapping pct_format re show_mean mean_format = Inr freqs"
proof (induction groups)
  case Nil
  then show ?case by simp
next
  case (Cons kg groups)
  obtain k gp where kg: "kg = (k, gp)" by (cases kg)
  have v: "variable_one q \<in> set (columns gp)" and mk: "mapping k \<noteq> None"
    using Cons.prems kg by auto
  from frequency_table_one_percent_returns[OF v] obtain t where
    t: "frequency_table_one q gp True False True pct_format re False show_mean mean_format = Inr t"
    by blast
  from frequency_table_one_answer_series[OF wf t] obtain vals where
    a: "answer_series t = Inr (answer_labels q re show_mean, vals)" by blast
  from mk obtain name where n: "mapping k = Some name" by auto
  from Cons.IH Cons.prems obtain series where
    s: "cut_series q groups mapping pct_format re show_mean mean_format = Inr series" by auto
  show ?case by (simp add: kg t a n s)
qed

lemma group_data_returns:
  "\<forall>(k, gp) \<in> set groups. var \<in> set (columns gp) \<Longrightarrow> \<exists>data. group_data var groups = Inr data"
proof (induction groups)
  case Nil
  then show ?case by simp
next
  case (Cons kg groups)
  obtain k gp where kg: "kg = (k, gp)" by (cases kg)
  have "var \<in> set (columns gp)" using Cons.prems kg by auto
  from get_column_present[OF this] obtain col where c: "get_column gp var = Inr col" by blast
  from Cons.IH Cons.prems obtain ds where d: "group_data var groups = Inr ds" by auto
  show ?case by (simp add: kg c d)
qed

lemma compare_groups_one_returns:
  assumes "\<forall>(k, gp) \<in> set groups. variable_one q \<in> set (columns gp)"
  shows "\<exists>b. compare_groups_one st q groups pval = Inr b"
proof -
  from group_data_returns[OF assms] obtain data where
    "group_data (variable_one q) groups = Inr data" by blast
  then show ?thesis by (auto simp: compare_groups_one_def split: prod.splits)
qed

text \<open>
  The cross-tabulation returns a table for a question with equally many choices, values
  and flags when no choice is excluded or exclusions are not removed, every group has
  the answer variable and every group key has a label. (With an excluded choice and
  exclusions removed the upper column level is longer than the columns.)
\<close>

lemma cut_by_one_returns:
  assumes wf: "well_formed_one q"
    and nx: "re \<longrightarrow> (\<forall>x \<in> set (exclude_from_analysis_one q). \<not> x)"
    and gr: "\<forall>(k, gp) \<in> set groups. variable_one q \<in> set (columns gp) \<and> mapping k \<noteq> None"
    and ne: "groups \<noteq> []"
  shows "\<exists>tbl. cut_by_one st q groups mapping cut_var_label question_label pct_format re
                 show_mean mean_format = Inr tbl"
proof -
  from cut_series_returns[OF wf gr] obtain freqs where
    fr: "cut_series q groups mapping pct_format re show_mean mean_format = Inr freqs" by blast
  have lf: "length freqs = length groups" by (rule cut_series_length[OF fr])
  then obtain name idx vals rest where f: "freqs = (name, idx, vals) # rest"
    using ne by (cases freqs) auto
  have idx: "idx = answer_labels q re show_mean"
    using cut_series_index[OF wf fr] f by simp
  have cols0: "(case freqs of [] \<Rightarrow> [] | (name, idx, vals) # rest \<Rightarrow> idx)
                 = answer_labels q re show_mean"
    by (simp add: f idx)
  have "\<forall>(k, gp) \<in> set groups. variable_one q \<in> set (columns gp)" using gr by auto
  from compare_groups_one_returns[OF this] obtain b where
    b: "compare_groups_one st q groups (5 / 100) = Inr b" by blast
  have lv: "length (if re then retained (values_one q) (exclude_from_analysis_one q)
                    else values_one q) = length (choices_one q)"
    using wf nx retained_nothing_excluded[of "values_one q" "exclude_from_analysis_one q"]
    by (auto simp: well_formed_one_def)
  have lc: "length (get_choices_one q re show_mean) = length (choices_one q)"
    using length_get_choices_one[OF wf, of re show_mean] lv by simp
  have rows: "length (replicate (length groups) cut_var_label)
                = length (map (\<lambda>(name, idx, vals). name) freqs)"
    using lf by simp
  show ?thesis
    unfolding cut_by_one_def Let_def fr sum.case cols0
    using b lc rows
    by (cases show_mean; cases b)
       (simp_all add: answer_labels_def star_last_Mean from_arrays_def)
qed

text \<open>
  The keys of a returned table. When a single-answer question is cut by a grouping with
  two groups and \<^verbatim>\<open>cut_by\<close> returns a table, that table
  has two rows, the top-level label of each being the axis label
  (the same label twice), and every column carries one and the same top-level label, the
  question's label (the given label, or the question's text when none is given); the
  columns are as many as the question has choices, and one more with the mean. For a
  question whose choices, values and exclusion flags are equally many, the second-level
  column labels are the choice labels in order, followed by the label of the mean
  (starred when the groups differ significantly).
\<close>

lemma cut_by_one_keys:
  assumes "length groups = 2"
    and "cut_by_one st q groups mapping cut_var_label question_label pct_format re show_mean
           mean_format = Inr tbl"
  shows "map fst (row_index tbl) = [cut_var_label, cut_var_label] \<and>
         length (body tbl) = 2 \<and>
         length (column_index tbl) = length (choices_one q) + (if show_mean then 1 else 0) \<and>
         map fst (column_index tbl) =
           replicate (length (column_index tbl))
             (case question_label of None \<Rightarrow> text_one q
              | Some l \<Rightarrow> if l = [] then text_one q else l) \<and>
         (well_formed_one q \<longrightarrow>
            map snd (column_index tbl) =
              map Text (get_choices_one q re show_mean) @
              (if show_mean
               then [if compare_groups_one st q groups (5 / 100) = Inr True
                     then Text ''Mean*'' else Text ''Mean'']
               else []))"
proof -
  let ?my = "case question_label of None \<Rightarrow> text_one q
              | Some l \<Rightarrow> if l = [] then text_one q else l"
  from assms(2) obtain freqs cols1 rkeys ckeys where
    fr: "cut_series q groups mapping pct_format re show_mean mean_format = Inr freqs" and
    rk: "from_arrays (replicate (length groups) cut_var_label)
           (map (\<lambda>(name, idx, vals). name) freqs) = Inr rkeys" and
    ck: "from_arrays (replicate (length (choices_one q)) ?my @ (if show_mean then [?my] else []))
           cols1 = Inr ckeys" and
    tbl: "tbl = \<lparr>row_index = rkeys, column_index = ckeys,
                 body = map (\<lambda>(name, idx, vals). vals) freqs\<rparr>"
    unfolding cut_by_one_def Let_def
    by (auto split: sum.splits)
  have r: "map fst rkeys = [cut_var_label, cut_var_label]"
    using from_arrays_fst[OF rk] assms(1) by (simp add: numeral_2_eq_2)
  have b: "length (map (\<lambda>(name, idx, vals). vals) freqs) = 2"
    using cut_series_length[OF fr] assms(1) by simp
  have c: "map fst ckeys =
             replicate (length (choices_one q)) ?my @ (if show_mean then [?my] else [])"
    by (rule from_arrays_fst[OF ck])
  have cl: "length ckeys = length (choices_one q) + (if show_mean then 1 else 0)"
    using arg_cong[OF c, of length] by simp
  have c2: "map fst ckeys = replicate (length ckeys) ?my"
    unfolding c cl by (simp add: replicate_append_same)
  have ne: "groups \<noteq> []" using assms(1) by auto
  have sub: "well_formed_one q \<longrightarrow>
            map snd (column_index tbl) =
              map Text (get_choices_one q re show_mean) @
              (if show_mean
               then [if compare_groups_one st q groups (5 / 100) = Inr True
                     then Text ''Mean*'' else Text ''Mean'']
               else [])"
    using cut_by_one_sub_columns[OF _ ne assms(2)] by blast
  have top: "map fst (row_index tbl) = [cut_var_label, cut_var_label] \<and>
         length (body tbl) = 2 \<and>
         length (column_index tbl) = length (choices_one q) + (if show_mean then 1 else 0) \<and>
         map fst (column_index tbl) =
           replicate (length (column_index tbl))
             (case question_label of None \<Rightarrow> text_one q
              | Some l \<Rightarrow> if l = [] then text_one q else l)"
    using r b cl c2 by (simp add: tbl)
  show ?thesis using top sub by blast
qed


lemma cut_by_one_example:
  "cut_by_one always_significant yes_no two_groups gender_labels ''Gender'' None ''.0%''
     True True ''.1f'' =
   Inr \<lparr>row_index = [(''Gender'', ''Men''), (''Gender'', ''Women'')],
        column_index =
          [(''Do you agree?'', Text ''Yes (1)''),
           (''Do you agree?'', Text ''No (2)''),
           (''Do you agree?'', Text ''Mean*'')],
        body =
          [[Formatted (Fin 1) ''.0%'', Formatted (Fin 0) ''.0%'',
            Formatted (Fin 1) ''.1f''],
           [Formatted (Fin 0) ''.0%'', Formatted (Fin 1) ''.0%'',
            Formatted (Fin 2) ''.1f'']]\<rparr>"
  by code_simp

lemma cut_by_one_excluded_choice_example:
  "cut_by_one always_significant yes_no_dk two_groups gender_labels ''Gender'' None ''.0%''
     True True ''.1f'' = Inl ValueError"
  by code_simp

lemma cut_by_one_keys_example:
  "length two_groups = 2 \<and>
   (\<exists>tbl. cut_by_one always_significant yes_no two_groups gender_labels ''Gender'' None ''.0%''
            True True ''.1f'' = Inr tbl \<and>
          map fst (row_index tbl) = [''Gender'', ''Gender''] \<and>
          map snd (row_index tbl) = [''Men'', ''Women''] \<and>
          map fst (column_index tbl) = [''Do you agree?'', ''Do you agree?'', ''Do you agree?''] \<and>
          map snd (column_index tbl) = [Text ''Yes (1)'', Text ''No (2)'', Text ''Mean*''])"
proof -
  have l: "length two_groups = 2"
    by (simp add: two_groups_def three_groups_def)
  from cut_by_one_keys[OF l cut_by_one_example] cut_by_one_example l
  show ?thesis by (simp add: yes_no_def)
qed

lemma length_compress_le: "length (compress xs ss) \<le> length xs"
  by (induction xs ss rule: compress.induct) auto

lemma length_retained_excluded:
  "length xs = length excl \<Longrightarrow> \<exists>x \<in> set excl. x \<Longrightarrow> length (retained xs excl) < length xs"
  unfolding retained_def
proof (induction xs excl rule: list_induct2)
  case Nil
  then show ?case by simp
next
  case (Cons x xs e excl)
  show ?case
  proof (cases e)
    case True
    have "length (compress xs (map Not excl)) \<le> length xs" by (rule length_compress_le)
    then show ?thesis using True by simp
  next
    case False
    then have "\<exists>x \<in> set excl. x" using Cons.prems by auto
    from Cons.IH[OF this] show ?thesis using False by simp
  qed
qed

text \<open>
  With exclusions removed, which is the default of \<^verbatim>\<open>cut_by\<close>, a question that has
  an excluded choice never gets a table: the upper level of the column keys is built with
  one entry per choice of the question, \<^verbatim>\<open>[my_label]*len(self.choices)\<close>, while the
  columns are the retained choices, so that the two levels differ in length.
\<close>

lemma cut_by_one_excluded_choice_no_table:
  assumes wf: "well_formed_one q"
    and ex: "\<exists>x \<in> set (exclude_from_analysis_one q). x"
    and gr: "\<forall>(k, gp) \<in> set groups. variable_one q \<in> set (columns gp) \<and> mapping k \<noteq> None"
    and ne: "groups \<noteq> []"
  shows "cut_by_one st q groups mapping cut_var_label question_label pct_format True
           show_mean mean_format = Inl ValueError"
proof -
  from cut_series_returns[OF wf gr] obtain freqs where
    fr: "cut_series q groups mapping pct_format True show_mean mean_format = Inr freqs" by blast
  have lf: "length freqs = length groups" by (rule cut_series_length[OF fr])
  then obtain name idx vals rest where f: "freqs = (name, idx, vals) # rest"
    using ne by (cases freqs) auto
  have idx: "idx = answer_labels q True show_mean"
    using cut_series_index[OF wf fr] f by simp
  have cols0: "(case freqs of [] \<Rightarrow> [] | (name, idx, vals) # rest \<Rightarrow> idx)
                 = answer_labels q True show_mean"
    by (simp add: f idx)
  have "\<forall>(k, gp) \<in> set groups. variable_one q \<in> set (columns gp)" using gr by auto
  from compare_groups_one_returns[OF this] obtain b where
    b: "compare_groups_one st q groups (5 / 100) = Inr b" by blast
  have "length (retained (values_one q) (exclude_from_analysis_one q)) < length (values_one q)"
    using wf ex by (intro length_retained_excluded) (auto simp: well_formed_one_def)
  then have lc: "length (get_choices_one q True show_mean) < length (choices_one q)"
    using length_get_choices_one[OF wf, of True show_mean] wf by (simp add: well_formed_one_def)
  have rows: "length (replicate (length groups) cut_var_label)
                = length (map (\<lambda>(name, idx, vals). name) freqs)"
    using lf by simp
  show ?thesis
    unfolding cut_by_one_def Let_def fr sum.case cols0
    using b lc rows
    by (cases show_mean; cases b)
       (simp_all add: answer_labels_def star_last_Mean from_arrays_def)
qed

text \<open>
  C9. The question with the choices Yes, No and the excluded Do not know, cut by a
  grouping with two groups with exclusions removed: no table with two top-level row
  labels and one top-level column label over the choice columns is returned, the call
  raises ValueError, whatever the tests, the labels, the formats and the mean option.
\<close>

theorem cut_by_one_excluded_choice_raises:
  "well_formed_one yes_no_dk \<and> length two_groups = 2 \<and>
   cut_by_one st yes_no_dk two_groups gender_labels cut_var_label question_label pct_format
     True show_mean mean_format = Inl ValueError"
proof -
  have wf: "well_formed_one yes_no_dk"
    by (simp add: well_formed_one_def yes_no_dk_def)
  have ex: "\<exists>x \<in> set (exclude_from_analysis_one yes_no_dk). x"
    by (simp add: yes_no_dk_def)
  have gr: "\<forall>(k, gp) \<in> set two_groups.
              variable_one yes_no_dk \<in> set (columns gp) \<and> gender_labels k \<noteq> None"
    by (simp add: two_groups_def three_groups_def yes_no_dk_def gender_labels_def)
  have l: "length two_groups = 2"
    by (simp add: two_groups_def three_groups_def)
  then have ne: "two_groups \<noteq> []" by auto
  show ?thesis
    using wf l cut_by_one_excluded_choice_no_table[OF wf ex gr ne] by simp
qed

end
